theory Spec2Isabelle
  imports Complex_Main "HOL-Library.Sublist"
begin

section \<open>JavaScript strings and numbers\<close>

text \<open>
  A JavaScript string is modelled as a \<open>string\<close> (a list of characters); the model is
  restricted to ASCII text, where \<open>toUpperCase\<close>, \<open>toLowerCase\<close> and \<open>trim\<close> act
  character by character.
\<close>

definition dquote :: char where
  "dquote = CHR 0x22"

definition newline :: char where
  "newline = CHR 0x0A"

definition toUpperChar :: "char \<Rightarrow> char" where
  "toUpperChar c =
     (case map_of (zip ''abcdefghijklmnopqrstuvwxyz'' ''ABCDEFGHIJKLMNOPQRSTUVWXYZ'') c of
        Some u \<Rightarrow> u | None \<Rightarrow> c)"

definition toLowerChar :: "char \<Rightarrow> char" where
  "toLowerChar c =
     (case map_of (zip ''ABCDEFGHIJKLMNOPQRSTUVWXYZ'' ''abcdefghijklmnopqrstuvwxyz'') c of
        Some l \<Rightarrow> l | None \<Rightarrow> c)"

definition toUpperCase :: "string \<Rightarrow> string" where
  "toUpperCase s = map toUpperChar s"

definition toLowerCase :: "string \<Rightarrow> string" where
  "toLowerCase s = map toLowerChar s"

definition is_space :: "char \<Rightarrow> bool" where
  \<comment> \<open>the ASCII white space and line terminators that \<open>trim\<close> removes\<close>
  "is_space c = (c \<in> set [CHR 0x09, CHR 0x0A, CHR 0x0B, CHR 0x0C, CHR 0x0D, CHR 0x20])"

definition trimStart :: "string \<Rightarrow> string" where
  "trimStart s = dropWhile is_space s"

definition trim :: "string \<Rightarrow> string" where
  "trim s = rev (dropWhile is_space (rev (dropWhile is_space s)))"

fun startsWith :: "string \<Rightarrow> string \<Rightarrow> bool" where
  "startsWith s [] = True"
| "startsWith [] (p # ps) = False"
| "startsWith (c # cs) (p # ps) = (c = p \<and> startsWith cs ps)"

fun includes_str :: "string \<Rightarrow> string \<Rightarrow> bool" where
  \<comment> \<open>\<open>s.includes(sub)\<close>\<close>
  "includes_str [] sub = (sub = [])"
| "includes_str (c # cs) sub = (startsWith (c # cs) sub \<or> includes_str cs sub)"

definition strip_quotes :: "string \<Rightarrow> string" where
  \<comment> \<open>\<open>s.replace(/"/g, '')\<close>\<close>
  "strip_quotes s = filter (\<lambda>c. c \<noteq> dquote) s"

definition is_digit :: "char \<Rightarrow> bool" where
  "is_digit c = (c \<in> set ''0123456789'')"

definition keep_numeric :: "string \<Rightarrow> string" where
  \<comment> \<open>\<open>s.replace(/[^\d.-]/g, '')\<close>\<close>
  "keep_numeric s = filter (\<lambda>c. is_digit c \<or> c = CHR ''.'' \<or> c = CHR ''-'') s"

fun split_on :: "char \<Rightarrow> string \<Rightarrow> string list" where
  \<comment> \<open>\<open>s.split(d)\<close> for a one-character separator: never the empty list\<close>
  "split_on d [] = [[]]"
| "split_on d (c # cs) =
     (if c = d then [] # split_on d cs
      else (case split_on d cs of r # rs \<Rightarrow> (c # r) # rs | [] \<Rightarrow> [[c]]))"

fun join :: "string \<Rightarrow> string list \<Rightarrow> string" where
  \<comment> \<open>\<open>xs.join(sep)\<close>\<close>
  "join sep [] = []"
| "join sep [x] = x"
| "join sep (x # y # ys) = x @ sep @ join sep (y # ys)"

fun String_nat :: "nat \<Rightarrow> string" where
  \<comment> \<open>the decimal text of a non-negative integer, as in a template literal\<close>
  "String_nat n =
     (if n < 10 then [''0123456789'' ! n]
      else String_nat (n div 10) @ [''0123456789'' ! (n mod 10)])"

declare String_nat.simps [simp del]

text \<open>
  A JavaScript number is \<open>NaN\<close>, an infinity (True for the negative one) or a numeric
  value. Numeric values are reals: the model does not round to binary64, and negative
  zero is zero.
\<close>

datatype jsnum = NaN | Infinity bool | Num real

definition falsy_num :: "jsnum \<Rightarrow> bool" where
  "falsy_num n = (n = NaN \<or> n = Num 0)"

definition or_zero :: "jsnum \<Rightarrow> jsnum" where
  \<comment> \<open>\<open>n || 0\<close>\<close>
  "or_zero n = (if falsy_num n then Num 0 else n)"

definition digit_val :: "char \<Rightarrow> nat" where
  "digit_val c =
     (case map_of (zip ''0123456789'' [0, 1, 2, 3, 4, 5, 6, 7, 8, 9]) c of
        Some d \<Rightarrow> d | None \<Rightarrow> 0)"

definition digits_val :: "string \<Rightarrow> nat" where
  "digits_val ds = foldl (\<lambda>a c. 10 * a + digit_val c) 0 ds"

definition split_sign :: "string \<Rightarrow> bool \<times> string" where
  \<comment> \<open>an optional leading sign; True is minus\<close>
  "split_sign s =
     (case s of
        [] \<Rightarrow> (False, [])
      | c # r \<Rightarrow> if c = CHR ''-'' then (True, r) else if c = CHR ''+'' then (False, r)
                 else (False, s))"

definition exponent_part :: "string \<Rightarrow> int" where
  \<comment> \<open>the value of a leading ExponentPart (\<open>e\<close> or \<open>E\<close>, a signed integer); 0 without one\<close>
  "exponent_part s =
     (case s of
        [] \<Rightarrow> 0
      | c # r \<Rightarrow>
          if c = CHR ''e'' \<or> c = CHR ''E'' then
            (let (neg, d) = split_sign r; ds = takeWhile is_digit d
             in if ds = [] then 0
                else if neg then - int (digits_val ds) else int (digits_val ds))
          else 0)"

definition scale10 :: "real \<Rightarrow> int \<Rightarrow> real" where
  "scale10 m e = (if 0 \<le> e then m * 10 ^ nat e else m / 10 ^ nat (- e))"

definition parseFloat :: "string \<Rightarrow> jsnum" where
  \<comment> \<open>ECMAScript \<open>parseFloat\<close>: the longest prefix of the left-trimmed text that is a
      StrDecimalLiteral, \<open>NaN\<close> when there is none\<close>
  "parseFloat s =
     (let (neg, u) = split_sign (trimStart s)
      in if startsWith u ''Infinity'' then Infinity neg
         else
           let ip = takeWhile is_digit u;
               r1 = dropWhile is_digit u;
               (fp, r2) =
                 (case r1 of
                    [] \<Rightarrow> ([], [])
                  | c # r \<Rightarrow>
                      if c = CHR ''.'' then (takeWhile is_digit r, dropWhile is_digit r)
                      else ([], r1))
           in if ip = [] \<and> fp = [] then NaN
              else
                let m = scale10 (real (digits_val (ip @ fp)) / 10 ^ length fp)
                          (exponent_part r2)
                in Num (if neg then - m else m))"

definition ToString :: "string option \<Rightarrow> string" where
  \<comment> \<open>\<open>String(v)\<close> for a value that is a string or \<open>null\<close>\<close>
  "ToString v = (case v of None \<Rightarrow> ''null'' | Some s \<Rightarrow> s)"

definition or_default :: "string option \<Rightarrow> string \<Rightarrow> string" where
  \<comment> \<open>\<open>v || d\<close> for a value that is a string or \<open>null\<close>: the empty string is falsy\<close>
  "or_default v d = (case v of None \<Rightarrow> d | Some s \<Rightarrow> if s = [] then d else s)"

section \<open>The data model of \<open>App.jsx\<close>\<close>

text \<open>
  The objects of the application, with their fields in object-definition order. An item
  made by the add form has a \<open>type\<close>, an imported one has none. \<open>status\<close> is a string
  that the code compares with \<open>'available'\<close> and \<open>'sold'\<close>.
\<close>

record saree =
  id_saree :: string
  code :: string
  shopName :: string
  shopCode :: string
  type :: "string option"
  cp :: jsnum
  mrp :: jsnum
  asp60 :: jsnum
  status :: string
  dateAdded :: string

record sale =
  id_sale :: string
  sareeCode :: string
  salePrice :: jsnum
  paymentMethod :: string
  saleDate :: string

datatype jsval = S string | N jsnum

record cart_item =
  saree :: saree
  selection :: string
  customPrice :: jsval

text \<open>
  The React state of the component: the two collections, the cart and the point-of-sale
  settings, and the notification last shown (message and type).
\<close>

record app_state =
  sarees :: "saree list"
  sales :: "sale list"
  cart :: "cart_item list"
  scanMode :: string
  showPaymentModal :: bool
  paymentMethod_state :: string
  notification :: "(string \<times> string) option"
  isDBLoaded :: bool

definition initial_state :: app_state where
  \<comment> \<open>the \<open>useState\<close> initial values\<close>
  "initial_state =
     \<lparr>sarees = [], sales = [], cart = [], scanMode = ''SELL'', showPaymentModal = False,
      paymentMethod_state = ''UPI'', notification = None, isDBLoaded = False\<rparr>"

datatype js_error = TypeError | SyntaxError | StorageError

definition showNotification :: "string \<Rightarrow> string \<Rightarrow> app_state \<Rightarrow> app_state" where
  "showNotification message ty st = st\<lparr>notification := Some (message, ty)\<rparr>"

fun findIndex :: "('a \<Rightarrow> bool) \<Rightarrow> 'a list \<Rightarrow> nat option" where
  \<comment> \<open>\<open>xs.findIndex(p)\<close>, with None for -1\<close>
  "findIndex p [] = None"
| "findIndex p (x # xs) =
     (if p x then Some 0 else (case findIndex p xs of None \<Rightarrow> None | Some k \<Rightarrow> Some (Suc k)))"

definition some :: "('a \<Rightarrow> bool) \<Rightarrow> 'a list \<Rightarrow> bool" where
  \<comment> \<open>\<open>xs.some(p)\<close>\<close>
  "some p xs = list_ex p xs"

section \<open>Adding an item\<close>

definition handleAddSaree ::
  "string \<Rightarrow> string \<Rightarrow> (string \<Rightarrow> string option) \<Rightarrow> app_state \<Rightarrow> js_error + app_state" where
  \<comment> \<open>\<open>now_ms\<close> is \<open>Date.now().toString()\<close>, \<open>now_iso\<close> is \<open>new Date().toISOString()\<close>,
      \<open>formData\<close> is \<open>FormData.get\<close>; calling \<open>toUpperCase\<close> on \<open>null\<close> throws\<close>
  "handleAddSaree now_ms now_iso formData st =
     (case formData ''code'' of
        None \<Rightarrow> Inl TypeError
      | Some raw \<Rightarrow>
          let code = toUpperCase raw
          in if some (\<lambda>s. saree.code s = code) (sarees st)
             then Inr (showNotification ''This Product Code already exists!'' ''error'' st)
             else
               let newSaree =
                     \<lparr>id_saree = now_ms,
                      code = code,
                      shopName = or_default (formData ''shopName'') ''Unknown Shop'',
                      shopCode = or_default (formData ''shopCode'') ''N/A'',
                      type = Some (or_default (formData ''type'') ''Cotton''),
                      cp = or_zero (parseFloat (ToString (formData ''cp''))),
                      mrp = or_zero (parseFloat (ToString (formData ''mrp''))),
                      asp60 = or_zero (parseFloat (ToString (formData ''asp60''))),
                      status = ''available'',
                      dateAdded = now_iso\<rparr>
               in Inr (showNotification (''Saree added! Code: '' @ code) ''success''
                         (st\<lparr>sarees := newSaree # sarees st\<rparr>)))"

definition after :: "js_error + app_state \<Rightarrow> app_state \<Rightarrow> app_state" where
  \<comment> \<open>the state after an event handler: its updates, or the old state when it threw\<close>
  "after r st = (case r of Inl e \<Rightarrow> st | Inr st' \<Rightarrow> st')"

fun addItems :: "(string \<times> string \<times> (string \<Rightarrow> string option)) list \<Rightarrow> app_state \<Rightarrow> app_state" where
  \<comment> \<open>a sequence of submissions of the add form\<close>
  "addItems [] st = st"
| "addItems ((now_ms, now_iso, formData) # evs) st =
     addItems evs (after (handleAddSaree now_ms now_iso formData st) st)"

section \<open>Point of sale: cart, return, checkout\<close>

definition addToCart :: "string \<Rightarrow> app_state \<Rightarrow> bool \<times> app_state" where
  "addToCart codeToScan st =
     (case find (\<lambda>s. code s = codeToScan) (sarees st) of
        None \<Rightarrow>
          (False, showNotification (''Code '' @ codeToScan @ '' not found in inventory!'') ''error'' st)
      | Some sr \<Rightarrow>
          if status sr = ''sold''
          then (False, showNotification (''Alert: '' @ codeToScan @ '' is already SOLD!'') ''error'' st)
          else if some (\<lambda>item. code (saree item) = codeToScan) (cart st)
          then (False, showNotification (codeToScan @ '' is already in the cart!'') ''error'' st)
          else
            (True,
             showNotification (''Added '' @ codeToScan @ '' to Cart.'') ''success''
               (st\<lparr>cart := cart st @
                  [\<lparr>saree = sr, selection = ''MRP'',
                    customPrice = (if falsy_num (mrp sr) then S [] else N (mrp sr))\<rparr>]\<rparr>)))"

definition processReturn :: "string \<Rightarrow> app_state \<Rightarrow> bool \<times> app_state" where
  "processReturn codeToScan st =
     (case findIndex (\<lambda>s. code s = codeToScan) (sarees st) of
        None \<Rightarrow>
          (False, showNotification (''Code '' @ codeToScan @ '' not found in inventory!'') ''error'' st)
      | Some sareeIndex \<Rightarrow>
          if status (sarees st ! sareeIndex) = ''available''
          then (False,
                showNotification (codeToScan @ '' is already marked as available.'') ''error'' st)
          else
            let updatedSarees =
                  (sarees st)[sareeIndex := (sarees st ! sareeIndex)\<lparr>status := ''available''\<rparr>];
                updatedSales = filter (\<lambda>sl. sareeCode sl \<noteq> codeToScan) (sales st)
            in (True,
                showNotification
                  (''Return Successful! '' @ codeToScan @ '' is back in inventory.'') ''success''
                  (st\<lparr>sarees := updatedSarees, sales := updatedSales\<rparr>)))"

definition handleScanInput :: "string \<Rightarrow> app_state \<Rightarrow> app_state" where
  "handleScanInput codeToScan st =
     (if codeToScan = [] then st
      else
        let c = toUpperCase (trim codeToScan)
        in if scanMode st = ''SELL'' then snd (addToCart c st) else snd (processReturn c st))"

definition parseFloat_val :: "jsval \<Rightarrow> jsnum" where
  \<comment> \<open>\<open>parseFloat(v)\<close>: a number is first printed, and its text parses to the number itself\<close>
  "parseFloat_val v = (case v of S s \<Rightarrow> parseFloat s | N n \<Rightarrow> n)"

definition finalPrice :: "cart_item \<Rightarrow> jsnum" where
  "finalPrice cartItem =
     (if selection cartItem = ''MRP'' then mrp (saree cartItem)
      else if selection cartItem = ''ASP60'' then asp60 (saree cartItem)
      else or_zero (parseFloat_val (customPrice cartItem)))"

fun sale_loop ::
  "(nat \<Rightarrow> string) \<Rightarrow> string \<Rightarrow> string \<Rightarrow> nat \<Rightarrow> cart_item list \<Rightarrow> saree list \<times> sale list
     \<Rightarrow> saree list \<times> sale list" where
  \<comment> \<open>the \<open>cart.forEach\<close> of the checkout, from cart line \<open>k\<close> on; \<open>ids k\<close> is the id
      generated for line \<open>k\<close> from the clock and \<open>Math.random\<close>\<close>
  "sale_loop ids pm timestamp k [] acc = acc"
| "sale_loop ids pm timestamp k (cartItem # rest) (updatedSarees, newSales) =
     sale_loop ids pm timestamp (Suc k) rest
       ((case findIndex (\<lambda>s. code s = code (saree cartItem)) updatedSarees of
           Some sIdx \<Rightarrow> updatedSarees[sIdx := (updatedSarees ! sIdx)\<lparr>status := ''sold''\<rparr>]
         | None \<Rightarrow> updatedSarees),
        newSales @
          [\<lparr>id_sale = ids k, sareeCode = code (saree cartItem), salePrice = finalPrice cartItem,
            paymentMethod = pm, saleDate = timestamp\<rparr>])"

definition completeSaleTransaction :: "(nat \<Rightarrow> string) \<Rightarrow> string \<Rightarrow> app_state \<Rightarrow> app_state" where
  \<comment> \<open>\<open>timestamp\<close> is \<open>new Date().toLocaleString()\<close>, read once\<close>
  "completeSaleTransaction ids timestamp st =
     (if cart st = [] then st
      else
        let (updatedSarees, newSales) =
              sale_loop ids (paymentMethod_state st) timestamp 0 (cart st) (sarees st, [])
        in showNotification
             (''Sale Completed! '' @ String_nat (length (cart st)) @ '' items sold.'') ''success''
             (st\<lparr>sarees := updatedSarees, sales := newSales @ sales st, cart := [],
                 showPaymentModal := False, paymentMethod_state := ''UPI''\<rparr>))"

section \<open>Bulk import\<close>

fun parseCSVRow_loop :: "char \<Rightarrow> string \<Rightarrow> bool \<Rightarrow> string list \<Rightarrow> string \<Rightarrow> string list" where
  \<comment> \<open>the \<open>for\<close> loop of \<open>parseCSVRow\<close> over the rest of the row, with the local variables
      \<open>cell\<close>, \<open>inQuotes\<close> and \<open>result\<close>\<close>
  "parseCSVRow_loop delimiter cell inQuotes result [] = result @ [trim cell]"
| "parseCSVRow_loop delimiter cell inQuotes result (c # cs) =
     (if c = dquote \<and> (case cs of [] \<Rightarrow> False | d # ds \<Rightarrow> d = dquote)
      then parseCSVRow_loop delimiter (cell @ [dquote]) inQuotes result (tl cs)
      else if c = dquote then parseCSVRow_loop delimiter cell (\<not> inQuotes) result cs
      else if c = delimiter \<and> \<not> inQuotes
      then parseCSVRow_loop delimiter [] inQuotes (result @ [trim cell]) cs
      else parseCSVRow_loop delimiter (cell @ [c]) inQuotes result cs)"

definition parseCSVRow :: "char \<Rightarrow> string \<Rightarrow> string list" where
  "parseCSVRow delimiter str = parseCSVRow_loop delimiter [] False [] str"

definition truthy_cell :: "string list \<Rightarrow> nat option \<Rightarrow> string option" where
  \<comment> \<open>\<open>idx !== -1 && values[idx]\<close>: the cell when the column exists and the cell is neither
      \<open>undefined\<close> nor empty\<close>
  "truthy_cell values idx =
     (case idx of
        None \<Rightarrow> None
      | Some k \<Rightarrow> if k < length values \<and> values ! k \<noteq> [] then Some (values ! k) else None)"

definition import_text :: "string list \<Rightarrow> nat option \<Rightarrow> string \<Rightarrow> string" where
  \<comment> \<open>a text column: the cell without quote characters, or the default\<close>
  "import_text values idx d =
     (case truthy_cell values idx of None \<Rightarrow> d | Some v \<Rightarrow> strip_quotes v)"

definition import_number :: "string list \<Rightarrow> nat option \<Rightarrow> jsnum" where
  "import_number values idx =
     (case truthy_cell values idx of
        None \<Rightarrow> Num 0
      | Some v \<Rightarrow> or_zero (parseFloat (keep_numeric v)))"

definition import_status :: "string list \<Rightarrow> nat option \<Rightarrow> string" where
  "import_status values statusIdx =
     (let statusStr =
            (case truthy_cell values statusIdx of
               None \<Rightarrow> ''available''
             | Some v \<Rightarrow> trim (toLowerCase v))
      in if \<not> includes_str statusStr ''sold'' then ''available'' else statusStr)"

record columns =
  shopNameIdx :: "nat option"
  shopCodeIdx :: "nat option"
  codeIdx :: "nat option"
  cpIdx :: "nat option"
  mrpIdx :: "nat option"
  aspIdx :: "nat option"
  statusIdx :: "nat option"

definition find_columns :: "string list \<Rightarrow> columns" where
  "find_columns headers =
     \<lparr>shopNameIdx =
        findIndex (\<lambda>h. includes_str h ''shop_name'' \<or> h = ''shop name'' \<or> h = ''shopname'') headers,
      shopCodeIdx =
        findIndex (\<lambda>h. includes_str h ''shop_code'' \<or> h = ''shop code'' \<or> h = ''shopcode'') headers,
      codeIdx =
        findIndex (\<lambda>h. includes_str h ''product_code'' \<or> h = ''product code''
                      \<or> h = ''productcode'' \<or> h = ''code'') headers,
      cpIdx = findIndex (\<lambda>h. h = ''cp'' \<or> includes_str h ''cost'') headers,
      mrpIdx = findIndex (\<lambda>h. h = ''mrp'') headers,
      aspIdx = findIndex (\<lambda>h. includes_str h ''asp60'' \<or> h = ''asp'') headers,
      statusIdx = findIndex (\<lambda>h. includes_str h ''status'') headers\<rparr>"

definition import_item :: "string \<Rightarrow> string \<Rightarrow> columns \<Rightarrow> string list \<Rightarrow> string \<Rightarrow> saree" where
  \<comment> \<open>the object pushed for an accepted row; it has no \<open>type\<close>\<close>
  "import_item new_id now_iso cols values c =
     \<lparr>id_saree = new_id,
      code = c,
      shopName = import_text values (shopNameIdx cols) ''Unknown Shop'',
      shopCode = import_text values (shopCodeIdx cols) ''N/A'',
      type = None,
      cp = import_number values (cpIdx cols),
      mrp = import_number values (mrpIdx cols),
      asp60 = import_number values (aspIdx cols),
      status = import_status values (statusIdx cols),
      dateAdded = now_iso\<rparr>"

definition import_row ::
  "(nat \<Rightarrow> string) \<Rightarrow> (nat \<Rightarrow> string) \<Rightarrow> char \<Rightarrow> columns \<Rightarrow> nat \<Rightarrow> saree list \<Rightarrow> nat \<Rightarrow> string
     \<Rightarrow> saree list \<times> nat \<times> nat \<Rightarrow> saree list \<times> nat \<times> nat" where
  \<comment> \<open>one iteration of the loop over \<open>rows[i]\<close>, on the accumulators \<open>newSarees\<close>,
      \<open>addedCount\<close> and \<open>duplicateCount\<close>; \<open>k\<close> is the code column, \<open>stock\<close> the items
      held when the file was chosen, \<open>now_ms i\<close> and \<open>now_iso i\<close> the clock readings\<close>
  "import_row now_ms now_iso delimiter cols k stock i row acc =
     (case acc of (newSarees, addedCount, duplicateCount) \<Rightarrow>
        if trim row = [] then acc
        else
          let values = parseCSVRow delimiter row;
              c = (if k < length values then toUpperCase (strip_quotes (values ! k)) else [])
          in if c = [] then acc
             else if some (\<lambda>s. code s = c) stock \<or> some (\<lambda>s. code s = c) newSarees
             then (newSarees, addedCount, Suc duplicateCount)
             else
               (newSarees @ [import_item (now_ms i @ String_nat i) (now_iso i) cols values c],
                Suc addedCount, duplicateCount))"

fun import_loop ::
  "(nat \<Rightarrow> string) \<Rightarrow> (nat \<Rightarrow> string) \<Rightarrow> char \<Rightarrow> columns \<Rightarrow> nat \<Rightarrow> saree list \<Rightarrow> nat \<Rightarrow> string list
     \<Rightarrow> saree list \<times> nat \<times> nat \<Rightarrow> saree list \<times> nat \<times> nat" where
  \<comment> \<open>\<open>for (let i = 1; i < rows.length; i++)\<close>, from row \<open>i\<close> on\<close>
  "import_loop now_ms now_iso delimiter cols k stock i [] acc = acc"
| "import_loop now_ms now_iso delimiter cols k stock i (row # rest) acc =
     import_loop now_ms now_iso delimiter cols k stock (Suc i) rest
       (import_row now_ms now_iso delimiter cols k stock i row acc)"

definition handleFileUpload ::
  "(nat \<Rightarrow> string) \<Rightarrow> (nat \<Rightarrow> string) \<Rightarrow> string \<Rightarrow> app_state \<Rightarrow> app_state" where
  \<comment> \<open>the \<open>reader.onload\<close> handler on the text of the chosen file\<close>
  "handleFileUpload now_ms now_iso text st =
     (case split_on newline text of
        [] \<Rightarrow> showNotification ''Error reading file. Ensure valid CSV.'' ''error'' st
      | header_row # data_rows \<Rightarrow>
          let delimiter = (if CHR ''|'' \<in> set text then CHR ''|'' else CHR '','');
              headers = map (\<lambda>h. trim (strip_quotes (toLowerCase h)))
                          (parseCSVRow delimiter header_row);
              cols = find_columns headers
          in (case codeIdx cols of
                None \<Rightarrow>
                  showNotification
                    (''Error: CSV must have a '' @ [dquote] @ ''Product_Code'' @ [dquote] @ '' column'')
                    ''error'' st
              | Some k \<Rightarrow>
                  (case import_loop now_ms now_iso delimiter cols k (sarees st) 1 data_rows ([], 0, 0) of
                     (newSarees, addedCount, duplicateCount) \<Rightarrow>
                       if addedCount > 0
                       then showNotification
                              (''Imported '' @ String_nat addedCount @ '' items. (''
                                 @ String_nat duplicateCount @ '' duplicates skipped)'') ''success''
                              (st\<lparr>sarees := newSarees @ sarees st\<rparr>)
                       else showNotification
                              (''No items imported. '' @ String_nat duplicateCount
                                 @ '' duplicates found.'') ''error'' st)))"

section \<open>Export\<close>

text \<open>
  An object is the list of its own properties in insertion order. A number is printed by
  \<open>String\<close>; its text is the parameter \<open>numText\<close>.
\<close>

type_synonym obj = "(string \<times> jsval) list"

definition saree_entries :: "saree \<Rightarrow> obj" where
  "saree_entries s =
     [(''id'', S (id_saree s)), (''code'', S (code s)), (''shopName'', S (shopName s)),
      (''shopCode'', S (shopCode s))]
     @ (case type s of None \<Rightarrow> [] | Some t \<Rightarrow> [(''type'', S t)])
     @ [(''cp'', N (cp s)), (''mrp'', N (mrp s)), (''asp60'', N (asp60 s)),
        (''status'', S (status s)), (''dateAdded'', S (dateAdded s))]"

definition sale_entries :: "sale \<Rightarrow> obj" where
  "sale_entries sl =
     [(''id'', S (id_sale sl)), (''sareeCode'', S (sareeCode sl)), (''salePrice'', N (salePrice sl)),
      (''paymentMethod'', S (paymentMethod sl)), (''saleDate'', S (saleDate sl))]"

definition String_val :: "(jsnum \<Rightarrow> string) \<Rightarrow> jsval \<Rightarrow> string" where
  "String_val numText v = (case v of S s \<Rightarrow> s | N n \<Rightarrow> numText n)"

definition double_quotes :: "string \<Rightarrow> string" where
  \<comment> \<open>\<open>s.replace(/"/g, '""')\<close>\<close>
  "double_quotes s = concat (map (\<lambda>c. if c = dquote then [dquote, dquote] else [c]) s)"

definition csv_cell :: "string \<Rightarrow> string" where
  "csv_cell s = [dquote] @ double_quotes s @ [dquote]"

definition csv_row :: "(jsnum \<Rightarrow> string) \<Rightarrow> obj \<Rightarrow> string" where
  "csv_row numText ob = join '','' (map (\<lambda>v. csv_cell (String_val numText v)) (map snd ob))"

definition csvContent :: "(jsnum \<Rightarrow> string) \<Rightarrow> obj \<Rightarrow> obj list \<Rightarrow> string" where
  \<comment> \<open>\<open>[headers, ...rows].join('\n')\<close>, the keys taken from the first object\<close>
  "csvContent numText first data =
     join [newline] (join '','' (map fst first) # map (csv_row numText) data)"

definition exportToCSV ::
  "(jsnum \<Rightarrow> string) \<Rightarrow> string \<Rightarrow> obj list \<Rightarrow> string \<Rightarrow> app_state
     \<Rightarrow> (string \<times> string) option \<times> app_state" where
  \<comment> \<open>\<open>today\<close> is \<open>new Date().toLocaleDateString()\<close>; the result is the download (file name
      and content), if any, and the state\<close>
  "exportToCSV numText today data filename st =
     (case data of
        [] \<Rightarrow> (None, showNotification ''No data available to export!'' ''error'' st)
      | first # _ \<Rightarrow>
          (Some (filename @ ''_'' @ map (\<lambda>c. if c = CHR ''/'' then CHR ''-'' else c) today @ ''.csv'',
                 csvContent numText first data),
           showNotification (filename @ '' downloaded successfully!'') ''success'' st))"

definition export_sales :: "(jsnum \<Rightarrow> string) \<Rightarrow> string \<Rightarrow> app_state \<Rightarrow> (string \<times> string) option \<times> app_state" where
  "export_sales numText today st =
     exportToCSV numText today (map sale_entries (sales st)) ''Sales_Log'' st"

definition export_inventory :: "(jsnum \<Rightarrow> string) \<Rightarrow> string \<Rightarrow> app_state \<Rightarrow> (string \<times> string) option \<times> app_state" where
  "export_inventory numText today st =
     exportToCSV numText today (map saree_entries (sarees st)) ''Inventory_Master'' st"

section \<open>Durable store and legacy migration\<close>

text \<open>
  The IndexedDB object store under its two keys \<open>saree_inventory\<close> and \<open>saree_sales\<close>
  (None: the key is absent), and \<open>localStorage\<close> under the same keys. The store holds
  collections only. \<open>JSON.parse\<close> is a parameter: None means that it throws.
\<close>

record idb =
  saree_inventory :: "saree list option"
  saree_sales :: "sale list option"

record legacy =
  ls_saree_inventory :: "string option"
  ls_saree_sales :: "string option"

record json =
  parse_inventory :: "string \<Rightarrow> saree list option"
  parse_sales :: "string \<Rightarrow> sale list option"

datatype request =
  GetInventory | GetSales | MigrateInventory | MigrateSales | SaveInventory | SaveSales

definition truthy_str :: "string option \<Rightarrow> bool" where
  \<comment> \<open>the truth value of \<open>localStorage.getItem(key)\<close>\<close>
  "truthy_str v = (case v of None \<Rightarrow> False | Some s \<Rightarrow> s \<noteq> [])"

definition loadData_try ::
  "(request \<Rightarrow> bool) \<Rightarrow> json \<Rightarrow> legacy \<Rightarrow> idb
     \<Rightarrow> idb \<times> (js_error + saree list option \<times> sale list option)" where
  \<comment> \<open>the \<open>try\<close> block of \<open>loadData\<close> up to the two state updates: the store as the block
      leaves it, and the exception thrown or the values \<open>savedSarees\<close> and \<open>savedSales\<close>;
      \<open>rejects r\<close> says that the store request \<open>r\<close> fails\<close>
  "loadData_try rejects js ls db =
     (if rejects GetInventory then (db, Inl StorageError)
      else if rejects GetSales then (db, Inl StorageError)
      else
        let savedSarees = saree_inventory db; savedSales = saree_sales db
        in case
             (if savedSarees = None \<and> truthy_str (ls_saree_inventory ls)
              then (case parse_inventory js (ToString (ls_saree_inventory ls)) of
                      None \<Rightarrow> (db, Inl SyntaxError)
                    | Some v \<Rightarrow>
                        if rejects MigrateInventory then (db, Inl StorageError)
                        else (db\<lparr>saree_inventory := Some v\<rparr>, Inr (Some v)))
              else (db, Inr savedSarees))
           of
             (db1, Inl e) \<Rightarrow> (db1, Inl e)
           | (db1, Inr savedSarees1) \<Rightarrow>
               if savedSales = None \<and> truthy_str (ls_saree_sales ls)
               then (case parse_sales js (ToString (ls_saree_sales ls)) of
                       None \<Rightarrow> (db1, Inl SyntaxError)
                     | Some v \<Rightarrow>
                         if rejects MigrateSales then (db1, Inl StorageError)
                         else (db1\<lparr>saree_sales := Some v\<rparr>, Inr (savedSarees1, Some v)))
               else (db1, Inr (savedSarees1, savedSales)))"

definition loadData ::
  "(request \<Rightarrow> bool) \<Rightarrow> json \<Rightarrow> legacy \<Rightarrow> idb \<times> app_state \<Rightarrow> idb \<times> app_state" where
  \<comment> \<open>\<open>try { ... } catch (error) { console.error(...) } finally { setIsDBLoaded(true) }\<close>\<close>
  "loadData rejects js ls p =
     (case p of (db, st) \<Rightarrow>
        (case loadData_try rejects js ls db of
           (db', Inl e) \<Rightarrow> (db', st\<lparr>isDBLoaded := True\<rparr>)
         | (db', Inr (savedSarees, savedSales)) \<Rightarrow>
             (db',
              st\<lparr>sarees := (case savedSarees of None \<Rightarrow> sarees st | Some v \<Rightarrow> v),
                 sales := (case savedSales of None \<Rightarrow> sales st | Some v \<Rightarrow> v),
                 isDBLoaded := True\<rparr>)))"

definition save_effect :: "(request \<Rightarrow> bool) \<Rightarrow> idb \<times> app_state \<Rightarrow> idb \<times> app_state" where
  \<comment> \<open>the effect on \<open>[sarees, sales, isDBLoaded]\<close>: two independent writes, not awaited\<close>
  "save_effect rejects p =
     (case p of (db, st) \<Rightarrow>
        if isDBLoaded st
        then (db\<lparr>saree_inventory :=
                    (if rejects SaveInventory then saree_inventory db else Some (sarees st)),
                  saree_sales :=
                    (if rejects SaveSales then saree_sales db else Some (sales st))\<rparr>, st)
        else (db, st))"

definition startup :: "(request \<Rightarrow> bool) \<Rightarrow> json \<Rightarrow> legacy \<Rightarrow> idb \<Rightarrow> idb \<times> app_state" where
  \<comment> \<open>mounting the component: the save effect finds \<open>isDBLoaded\<close> false, \<open>loadData\<close> runs,
      and its state updates trigger the save effect again\<close>
  "startup rejects js ls db =
     save_effect rejects (loadData rejects js ls (save_effect rejects (db, initial_state)))"

section \<open>Vocabulary of the specification\<close>

text \<open>The failures of the specification are the error notifications of the code.\<close>

definition DuplicateCode :: "string \<times> string" where
  "DuplicateCode = (''This Product Code already exists!'', ''error'')"

definition NotFound :: "string \<Rightarrow> string \<times> string" where
  "NotFound c = (''Code '' @ c @ '' not found in inventory!'', ''error'')"

definition AlreadyAvailable :: "string \<Rightarrow> string \<times> string" where
  "AlreadyAvailable c = (c @ '' is already marked as available.'', ''error'')"

definition normalized :: "saree list \<Rightarrow> bool" where
  \<comment> \<open>every code is in upper case\<close>
  "normalized xs = (\<forall>s \<in> set xs. toUpperCase (code s) = code s)"

definition missing :: "string option \<Rightarrow> bool" where
  \<comment> \<open>a form field that is absent or empty\<close>
  "missing v = (v = None \<or> v = Some [])"

definition unparsable :: "string option \<Rightarrow> bool" where
  \<comment> \<open>a form field that is absent or that \<open>parseFloat\<close> maps to \<open>NaN\<close>\<close>
  "unparsable v = (case v of None \<Rightarrow> True | Some s \<Rightarrow> parseFloat s = NaN)"

definition mark_sold :: "string \<Rightarrow> saree list \<Rightarrow> saree list" where
  \<comment> \<open>the update of \<open>updatedSarees\<close> in one iteration of the checkout loop\<close>
  "mark_sold c us =
     (case findIndex (\<lambda>s. code s = c) us of
        Some sIdx \<Rightarrow> us[sIdx := (us ! sIdx)\<lparr>status := ''sold''\<rparr>]
      | None \<Rightarrow> us)"

definition cart_codes :: "cart_item list \<Rightarrow> string list" where
  "cart_codes cs = map (\<lambda>ci. code (saree ci)) cs"

definition sold_count :: "saree list \<Rightarrow> nat" where
  "sold_count us = length (filter (\<lambda>s. status s = ''sold'') us)"

definition checkout_ready :: "app_state \<Rightarrow> bool" where
  \<comment> \<open>a cart of distinct available items, over an inventory with unique codes\<close>
  "checkout_ready st =
     (distinct (map code (sarees st)) \<and> distinct (cart_codes (cart st)) \<and>
      (\<forall>c \<in> set (cart_codes (cart st)).
         \<exists>s \<in> set (sarees st). code s = c \<and> status s = ''available''))"

definition row_code :: "char \<Rightarrow> nat \<Rightarrow> string \<Rightarrow> string option" where
  \<comment> \<open>the code that a data row derives; None for a blank row and for a row without code\<close>
  "row_code delimiter k row =
     (if trim row = [] then None
      else
        let values = parseCSVRow delimiter row
        in if k < length values \<and> toUpperCase (strip_quotes (values ! k)) \<noteq> []
           then Some (toUpperCase (strip_quotes (values ! k))) else None)"

definition batch_codes :: "char \<Rightarrow> nat \<Rightarrow> string list \<Rightarrow> string list" where
  \<comment> \<open>the derived codes of the data rows, in row order\<close>
  "batch_codes delimiter k rows = List.map_filter (row_code delimiter k) rows"

fun accepted_codes :: "string list \<Rightarrow> string list \<Rightarrow> string list" where
  \<comment> \<open>the codes that are neither in \<open>seen\<close> nor earlier in the list, in order\<close>
  "accepted_codes seen [] = []"
| "accepted_codes seen (c # cs) =
     (if c \<in> set seen then accepted_codes seen cs else c # accepted_codes (seen @ [c]) cs)"

definition import_batch ::
  "(nat \<Rightarrow> string) \<Rightarrow> (nat \<Rightarrow> string) \<Rightarrow> string \<Rightarrow> saree list \<Rightarrow> (saree list \<times> nat \<times> nat) option" where
  \<comment> \<open>what the row loop of \<open>handleFileUpload\<close> computes for a file: \<open>newSarees\<close>,
      \<open>addedCount\<close>, \<open>duplicateCount\<close>; None when there is no code column\<close>
  "import_batch now_ms now_iso text stock =
     (case split_on newline text of
        [] \<Rightarrow> None
      | header_row # data_rows \<Rightarrow>
          let delimiter = (if CHR ''|'' \<in> set text then CHR ''|'' else CHR '','');
              cols = find_columns (map (\<lambda>h. trim (strip_quotes (toLowerCase h)))
                       (parseCSVRow delimiter header_row))
          in (case codeIdx cols of
                None \<Rightarrow> None
              | Some k \<Rightarrow> Some (import_loop now_ms now_iso delimiter cols k stock 1 data_rows ([], 0, 0))))"

definition text_codes :: "string \<Rightarrow> string list" where
  \<comment> \<open>the derived codes of the data rows of a file, in row order\<close>
  "text_codes text =
     (case split_on newline text of
        [] \<Rightarrow> []
      | header_row # data_rows \<Rightarrow>
          let delimiter = (if CHR ''|'' \<in> set text then CHR ''|'' else CHR '','');
              cols = find_columns (map (\<lambda>h. trim (strip_quotes (toLowerCase h)))
                       (parseCSVRow delimiter header_row))
          in (case codeIdx cols of
                None \<Rightarrow> []
              | Some k \<Rightarrow> batch_codes delimiter k data_rows))"

section \<open>Reading an exported table back\<close>

text \<open>
  The round-trip property of the export speaks of re-parsing the produced table. The
  reader below follows the specification's words, it is not a function of \<open>App.jsx\<close>:
  cells are separated by commas and rows by newlines, a cell between quote characters
  may contain both, and a doubled quote character inside it stands for one.
\<close>

fun reparse :: "bool \<Rightarrow> string \<Rightarrow> string list \<Rightarrow> string list list \<Rightarrow> string \<Rightarrow> string list list" where
  \<comment> \<open>reading a table back: \<open>q\<close> says that the reader is inside a quoted cell, \<open>cell\<close>,
      \<open>row\<close> and \<open>rows\<close> are the cell, the row and the rows read so far\<close>
  "reparse q cell row rows [] = rows @ [row @ [cell]]"
| "reparse q cell row rows (c # cs) =
     (if q then
        (if c = dquote then
           (case cs of
              [] \<Rightarrow> reparse False cell row rows []
            | d # ds \<Rightarrow>
                if d = dquote then reparse True (cell @ [dquote]) row rows ds
                else reparse False cell row rows (d # ds))
         else reparse True (cell @ [c]) row rows cs)
      else if c = dquote then reparse True cell row rows cs
      else if c = CHR '','' then reparse False [] (row @ [cell]) rows cs
      else if c = newline then reparse False [] [] (rows @ [row @ [cell]]) cs
      else reparse False (cell @ [c]) row rows cs)"

definition reparse_table :: "string \<Rightarrow> string list list" where
  \<comment> \<open>the rows of cells of a table text\<close>
  "reparse_table text = reparse False [] [] [] text"

definition sep_or_end :: "string \<Rightarrow> bool" where
  \<comment> \<open>the text after a cell: the end, a comma or a newline\<close>
  "sep_or_end rest = (case rest of [] \<Rightarrow> True | c # _ \<Rightarrow> c = CHR '','' \<or> c = newline)"

definition plain :: "string \<Rightarrow> bool" where
  \<comment> \<open>a text without quote character, comma and newline, as the field names are\<close>
  "plain s = (\<forall>c \<in> set s. c \<noteq> dquote \<and> c \<noteq> CHR '','' \<and> c \<noteq> newline)"

definition encodes :: "string \<Rightarrow> string \<Rightarrow> bool" where
  \<comment> \<open>the reader, at the start of a cell, reads the text \<open>e\<close> as the cell \<open>v\<close>\<close>
  "encodes e v = (\<forall>row rows rest. sep_or_end rest \<longrightarrow>
      reparse False [] row rows (e @ rest) = reparse False v row rows rest)"

definition line_of :: "string \<Rightarrow> string list \<Rightarrow> bool" where
  \<comment> \<open>a line of cells that the reader reads as the row \<open>vs\<close>\<close>
  "line_of l vs = (\<exists>es. l = join '','' es \<and> list_all2 encodes es vs \<and> vs \<noteq> [])"

definition inventory_table :: "(jsnum \<Rightarrow> string) \<Rightarrow> string \<Rightarrow> app_state \<Rightarrow> string list list" where
  \<comment> \<open>the exported inventory file, read back; no rows when nothing is exported\<close>
  "inventory_table numText today st =
     (case fst (export_inventory numText today st) of
        None \<Rightarrow> []
      | Some (name, content) \<Rightarrow> reparse_table content)"

section \<open>Sample data\<close>

definition sample_item :: "string \<Rightarrow> string \<Rightarrow> string \<Rightarrow> saree" where
  "sample_item i c stat =
     \<lparr>id_saree = i, code = c, shopName = ''Sharma Textiles'', shopCode = ''SHARMA01'',
      type = Some ''Cotton'', cp = Num 300, mrp = Num 500, asp60 = Num 400, status = stat,
      dateAdded = ''2024-01-01T00:00:00.000Z''\<rparr>"

definition sample_line :: "saree \<Rightarrow> cart_item" where
  "sample_line s = \<lparr>saree = s, selection = ''MRP'', customPrice = N (mrp s)\<rparr>"

definition stock1 :: app_state where
  "stock1 = initial_state\<lparr>sarees := [sample_item ''1'' ''SAR101'' ''available'']\<rparr>"

definition pos1 :: app_state where
  \<comment> \<open>three items, one of them sold earlier, and a cart with the two available ones\<close>
  "pos1 = initial_state
     \<lparr>sarees := [sample_item ''1'' ''SAR101'' ''available'', sample_item ''2'' ''SAR102'' ''available'',
                 sample_item ''3'' ''SAR103'' ''sold''],
      sales := [\<lparr>id_sale = ''9'', sareeCode = ''SAR103'', salePrice = Num 500,
                 paymentMethod = ''UPI'', saleDate = ''1/1/2024, 10:00:00 AM''\<rparr>],
      cart := [sample_line (sample_item ''1'' ''SAR101'' ''available''),
               sample_line (sample_item ''2'' ''SAR102'' ''available'')],
      paymentMethod_state := ''Cash''\<rparr>"

definition sample_ids :: "nat \<Rightarrow> string" where
  "sample_ids k = ''1700000000000'' @ String_nat k"

definition form_code_only :: "string \<Rightarrow> string option" where
  "form_code_only = [''code'' \<mapsto> ''sar101'']"

definition form2 :: "string \<Rightarrow> string option" where
  "form2 = [''code'' \<mapsto> ''sar102'', ''shopName'' \<mapsto> [], ''cp'' \<mapsto> ''abc'', ''mrp'' \<mapsto> [],
            ''asp60'' \<mapsto> ''400'']"

definition sample_clock :: "nat \<Rightarrow> string" where
  "sample_clock i = ''170000000000''"

definition sample_iso :: "nat \<Rightarrow> string" where
  "sample_iso i = ''2024-01-02T00:00:00.000Z''"

definition code_cols :: columns where
  \<comment> \<open>the columns of a file whose header row is \<open>code\<close>\<close>
  "code_cols = find_columns [''code'']"

definition imported :: "string \<Rightarrow> string \<Rightarrow> saree" where
  \<comment> \<open>the item that a row with nothing but a code makes\<close>
  "imported i c =
     \<lparr>id_saree = i, code = c, shopName = ''Unknown Shop'', shopCode = ''N/A'', type = None,
      cp = Num 0, mrp = Num 0, asp60 = Num 0, status = ''available'',
      dateAdded = ''2024-01-02T00:00:00.000Z''\<rparr>"

definition csv_ab :: string where
  "csv_ab = ''Product_Code,MRP'' @ [newline] @ ''a1,100'' @ [newline] @ ''b2,200''"

definition csv_status :: string where
  "csv_status = ''Product_Code,Item_Status'' @ [newline] @ ''CODE_A,'' @ [newline]
     @ ''CODE_B,Sold - floor 2''"

definition quoted_name :: string where
  \<comment> \<open>a shop name with a comma and quote characters\<close>
  "quoted_name = ''Sharma, '' @ [dquote] @ ''Silk'' @ [dquote]"

definition csv_x9 :: string where
  "csv_x9 = ''code'' @ [newline] @ ''x9''"

definition form3 :: "string \<Rightarrow> string option" where
  "form3 = [''code'' \<mapsto> ''sar101'', ''shopName'' \<mapsto> quoted_name, ''mrp'' \<mapsto> ''500'']"

definition mixed_stock :: app_state where
  \<comment> \<open>the state after importing the file \<open>csv_x9\<close> and then adding \<open>form3\<close> by the form\<close>
  "mixed_stock =
     after (handleAddSaree ''1'' ''2024-01-03T00:00:00.000Z'' form3
              (handleFileUpload sample_clock sample_iso csv_x9 initial_state))
       (handleFileUpload sample_clock sample_iso csv_x9 initial_state)"

definition sample_numText :: "jsnum \<Rightarrow> string" where
  \<comment> \<open>agrees with \<open>String\<close> on the numbers of the sample data\<close>
  "sample_numText n =
     (if n = Num 500 then ''500'' else if n = Num 400 then ''400''
      else if n = Num 300 then ''300'' else if n = Num 0 then ''0'' else ''NaN'')"

definition three_items :: "saree list" where
  "three_items = [sample_item ''1'' ''SAR101'' ''available'', sample_item ''2'' ''SAR102'' ''available'',
                  sample_item ''3'' ''SAR103'' ''sold'']"

definition legacy_inventory_text :: string where
  \<open>legacy_inventory_text =
     ''[{"id":"1","code":"SAR101","shopName":"Sharma Textiles","shopCode":"SHARMA01","type":"Cotton","cp":300,"mrp":500,"asp60":400,"status":"available","dateAdded":"2024-01-01T00:00:00.000Z"},''
   @ ''{"id":"2","code":"SAR102","shopName":"Sharma Textiles","shopCode":"SHARMA01","type":"Cotton","cp":300,"mrp":500,"asp60":400,"status":"available","dateAdded":"2024-01-01T00:00:00.000Z"},''
   @ ''{"id":"3","code":"SAR103","shopName":"Sharma Textiles","shopCode":"SHARMA01","type":"Cotton","cp":300,"mrp":500,"asp60":400,"status":"sold","dateAdded":"2024-01-01T00:00:00.000Z"}]''\<close>

definition sample_json :: json where
  \<comment> \<open>agrees with \<open>JSON.parse\<close> on the texts used below: the serialized three items, the
      empty array, and a text that is not JSON\<close>
  "sample_json =
     \<lparr>parse_inventory = (\<lambda>s. if s = legacy_inventory_text then Some three_items
                              else if s = ''[]'' then Some [] else None),
      parse_sales = (\<lambda>s. if s = ''[]'' then Some [] else None)\<rparr>"

definition no_failure :: "request \<Rightarrow> bool" where
  \<comment> \<open>every store request succeeds\<close>
  "no_failure r = False"

definition legacy_corrupt_sales :: legacy where
  \<comment> \<open>a legacy storage with the serialized three items and a sales value that is not JSON\<close>
  "legacy_corrupt_sales =
     \<lparr>ls_saree_inventory = Some legacy_inventory_text, ls_saree_sales = Some ''not json''\<rparr>"

definition empty_db :: idb where
  "empty_db = \<lparr>saree_inventory = None, saree_sales = None\<rparr>"

section \<open>Properties of the helper functions\<close>

lemma some_code_iff: "some (\<lambda>s. code s = c) xs \<longleftrightarrow> c \<in> set (map code xs)"
  by (auto simp: some_def list_ex_iff)

lemma toUpperChar_idem: "toUpperChar (toUpperChar c) = toUpperChar c"
  by (auto simp: toUpperChar_def split: option.splits if_splits)

lemma toUpperCase_idem: "toUpperCase (toUpperCase s) = toUpperCase s"
  by (simp add: toUpperCase_def toUpperChar_idem)

lemma findIndex_None_iff: "findIndex p xs = None \<longleftrightarrow> (\<forall>x \<in> set xs. \<not> p x)"
  by (induction xs) (auto split: option.splits)

lemma findIndex_Some:
  "findIndex p xs = Some k \<Longrightarrow> k < length xs \<and> p (xs ! k) \<and> (\<forall>j < k. \<not> p (xs ! j))"
proof (induction xs arbitrary: k)
  case Nil
  then show ?case by simp
next
  case (Cons x xs)
  show ?case
  proof (cases "p x")
    case True
    with Cons.prems show ?thesis by simp
  next
    case False
    with Cons.prems obtain k' where k': "findIndex p xs = Some k'" "k = Suc k'"
      by (auto split: option.splits)
    from Cons.IH [OF k'(1)] False k'(2) show ?thesis
      by (auto simp: nth_Cons split: nat.splits)
  qed
qed

lemma findIndex_find:
  "findIndex p xs = Some k \<Longrightarrow> find p xs = Some (xs ! k)"
  by (induction xs arbitrary: k) (auto split: option.splits if_splits)

lemma find_findIndex:
  "find p xs = Some x \<Longrightarrow> \<exists>k. findIndex p xs = Some k \<and> xs ! k = x"
  by (induction xs) (auto split: option.splits if_splits)

lemma findIndex_code_cong:
  "map code us = map code vs \<Longrightarrow>
   findIndex (\<lambda>s. code s = c) us = findIndex (\<lambda>s. code s = c) vs"
proof (induction us arbitrary: vs)
  case Nil
  then show ?case by simp
next
  case (Cons u us)
  then obtain v vs' where "vs = v # vs'" "code u = code v" "map code us = map code vs'"
    by (cases vs) auto
  with Cons.IH [of vs'] show ?case by simp
qed

lemma map_code_update:
  "k < length us \<Longrightarrow> map code (us[k := (us ! k)\<lparr>status := t\<rparr>]) = map code us"
  by (simp add: map_update list_update_same_conv)

lemma map_code_mark_sold: "map code (mark_sold c us) = map code us"
  by (auto simp: mark_sold_def map_code_update split: option.splits dest: findIndex_Some)

lemma sale_loop_fst:
  "fst (sale_loop ids pm ts k cs (us, ns)) = fold (\<lambda>ci. mark_sold (code (saree ci))) cs us"
  by (induction cs arbitrary: k us ns) (simp_all add: mark_sold_def)

lemma sale_loop_snd:
  "snd (sale_loop ids pm ts k cs (us, ns)) =
     ns @ map (\<lambda>(i, ci). \<lparr>id_sale = ids i, sareeCode = code (saree ci), salePrice = finalPrice ci,
                         paymentMethod = pm, saleDate = ts\<rparr>) (zip [k ..< k + length cs] cs)"
proof (induction cs arbitrary: k us ns)
  case Nil
  then show ?case by simp
next
  case (Cons ci cs)
  have "[k ..< k + length (ci # cs)] = k # [Suc k ..< Suc k + length cs]"
    by (simp add: upt_rec)
  then show ?case using Cons.IH by simp
qed

lemma map_code_fold: "map code (fold (\<lambda>ci. mark_sold (code (saree ci))) cs us) = map code us"
  by (induction cs arbitrary: us) (simp_all add: map_code_mark_sold)

lemma mark_sold_map:
  assumes "distinct (map code us)"
  shows "mark_sold c us = map (\<lambda>s. if code s = c then s\<lparr>status := ''sold''\<rparr> else s) us"
proof (cases "findIndex (\<lambda>s. code s = c) us")
  case None
  then have "\<forall>s \<in> set us. code s \<noteq> c" by (simp add: findIndex_None_iff)
  then have "map (\<lambda>s. if code s = c then s\<lparr>status := ''sold''\<rparr> else s) us = us"
    by (simp add: map_idI)
  with None show ?thesis by (simp add: mark_sold_def)
next
  case (Some k)
  from findIndex_Some [OF Some] have k: "k < length us" "code (us ! k) = c" by auto
  have "\<And>j. j < length us \<Longrightarrow> code (us ! j) = c \<longleftrightarrow> j = k"
    using assms k by (metis distinct_conv_nth length_map nth_map)
  then show ?thesis using Some k
    by (auto simp: mark_sold_def list_eq_iff_nth_eq nth_list_update)
qed

lemma fold_mark_sold_map:
  assumes "distinct (map code us)"
  shows "fold (\<lambda>ci. mark_sold (code (saree ci))) cs us =
         map (\<lambda>s. if code s \<in> set (map (\<lambda>ci. code (saree ci)) cs) then s\<lparr>status := ''sold''\<rparr> else s) us"
  using assms
proof (induction cs arbitrary: us)
  case Nil
  then show ?case by (simp add: map_idI)
next
  case (Cons ci cs)
  have d: "distinct (map code (mark_sold (code (saree ci)) us))"
    using Cons.prems by (simp add: map_code_mark_sold)
  have "fold (\<lambda>ci. mark_sold (code (saree ci))) (ci # cs) us =
        fold (\<lambda>ci. mark_sold (code (saree ci))) cs (mark_sold (code (saree ci)) us)"
    by simp
  also have "\<dots> = map (\<lambda>s. if code s \<in> set (map (\<lambda>ci. code (saree ci)) cs)
                            then s\<lparr>status := ''sold''\<rparr> else s) (mark_sold (code (saree ci)) us)"
    by (rule Cons.IH [OF d])
  also have "\<dots> = map (\<lambda>s. if code s \<in> set (map (\<lambda>ci. code (saree ci)) (ci # cs))
                            then s\<lparr>status := ''sold''\<rparr> else s) us"
    by (auto simp: mark_sold_map [OF Cons.prems])
  finally show ?case .
qed

lemma count_marked:
  assumes "distinct xs" "distinct C" "set C \<subseteq> set xs"
  shows "length (filter (\<lambda>x. x \<in> set C) xs) = length C"
proof -
  have "distinct (filter (\<lambda>x. x \<in> set C) xs)" using assms(1) by simp
  moreover have "set (filter (\<lambda>x. x \<in> set C) xs) = set C" using assms(3) by auto
  ultimately show ?thesis using assms(2) by (metis distinct_card)
qed

lemma count_marked_code:
  assumes "distinct (map code us)" "distinct C" "set C \<subseteq> set (map code us)"
  shows "length (filter (\<lambda>s. code s \<in> set C) us) = length C"
proof -
  have "length (filter (\<lambda>s. code s \<in> set C) us) = length (filter (\<lambda>x. x \<in> set C) (map code us))"
    by (simp add: filter_map comp_def)
  then show ?thesis using count_marked [OF assms] by simp
qed

lemma sold_count_map:
  assumes "\<forall>s \<in> set us. code s \<in> C \<longrightarrow> status s \<noteq> ''sold''"
  shows "length (filter (\<lambda>s. status s = ''sold'')
           (map (\<lambda>s. if code s \<in> C then s\<lparr>status := ''sold''\<rparr> else s) us)) =
         length (filter (\<lambda>s. status s = ''sold'') us) + length (filter (\<lambda>s. code s \<in> C) us)"
  using assms by (induction us) auto

lemma completeSaleTransaction_unfold:
  assumes "cart st \<noteq> []"
  shows "completeSaleTransaction ids ts st =
     st\<lparr>sarees := fold (\<lambda>ci. mark_sold (code (saree ci))) (cart st) (sarees st),
        sales := map (\<lambda>(i, ci). \<lparr>id_sale = ids i, sareeCode = code (saree ci), salePrice = finalPrice ci,
                         paymentMethod = paymentMethod_state st, saleDate = ts\<rparr>) (zip [0 ..< length (cart st)] (cart st)) @ sales st,
        cart := [], showPaymentModal := False, paymentMethod_state := ''UPI'',
        notification := Some (''Sale Completed! '' @ String_nat (length (cart st)) @ '' items sold.'', ''success'')\<rparr>"
  using assms
  by (simp add: completeSaleTransaction_def case_prod_beta sale_loop_fst sale_loop_snd
      showNotification_def)

lemma mark_sold_keeps_sold:
  assumes "k < length us" "status (us ! k) = ''sold''"
  shows "status (mark_sold c us ! k) = ''sold''"
proof (cases "findIndex (\<lambda>s. code s = c) us")
  case None
  with assms show ?thesis by (simp add: mark_sold_def)
next
  case (Some j)
  from findIndex_Some [OF Some] have "j < length us" by simp
  with assms Some show ?thesis
    by (cases "j = k") (simp_all add: mark_sold_def)
qed

lemma length_mark_sold: "length (mark_sold c us) = length us"
  by (simp add: mark_sold_def split: option.splits)

lemma fold_keeps_sold:
  "k < length us \<Longrightarrow> status (us ! k) = ''sold'' \<Longrightarrow>
   status (fold (\<lambda>ci. mark_sold (code (saree ci))) cs us ! k) = ''sold''"
  by (induction cs arbitrary: us) (simp_all add: mark_sold_keeps_sold length_mark_sold)

lemma mark_sold_hit:
  assumes "findIndex (\<lambda>s. code s = c) us = Some k"
  shows "status (mark_sold c us ! k) = ''sold''"
  using assms findIndex_Some [OF assms] by (simp add: mark_sold_def)

lemma fold_marks:
  assumes "findIndex (\<lambda>s. code s = c) us = Some k" and "c \<in> set (map (\<lambda>ci. code (saree ci)) cs)"
  shows "status (fold (\<lambda>ci. mark_sold (code (saree ci))) cs us ! k) = ''sold''"
  using assms
proof (induction cs arbitrary: us)
  case Nil
  then show ?case by simp
next
  case (Cons ci cs)
  let ?us = "mark_sold (code (saree ci)) us"
  have f: "findIndex (\<lambda>s. code s = c) ?us = Some k"
    using Cons.prems(1) findIndex_code_cong [OF map_code_mark_sold, of c "code (saree ci)" us] by simp
  show ?case
  proof (cases "code (saree ci) = c")
    case True
    have "k < length ?us" using findIndex_Some [OF f] by simp
    moreover have "status (?us ! k) = ''sold''"
      using mark_sold_hit [OF Cons.prems(1)] True by simp
    ultimately show ?thesis by (simp add: fold_keeps_sold)
  next
    case False
    with Cons.prems(2) have "c \<in> set (map (\<lambda>ci. code (saree ci)) cs)" by auto
    from Cons.IH [OF f this] show ?thesis by simp
  qed
qed

lemma addToCart_True:
  assumes "fst (addToCart c st)"
  shows "\<exists>sr. find (\<lambda>s. code s = c) (sarees st) = Some sr \<and>
           snd (addToCart c st) =
             st\<lparr>cart := cart st @ [\<lparr>saree = sr, selection = ''MRP'',
                    customPrice = (if falsy_num (mrp sr) then S [] else N (mrp sr))\<rparr>],
                notification := Some (''Added '' @ c @ '' to Cart.'', ''success'')\<rparr>"
  using assms
  by (auto simp: addToCart_def showNotification_def split: option.splits if_splits)

lemma parseFloat_null: "parseFloat ''null'' = NaN"
  by (simp add: parseFloat_def split_sign_def trimStart_def is_digit_def is_space_def)

lemma or_zero_NaN: "or_zero NaN = Num 0"
  by (simp add: or_zero_def falsy_num_def)

lemma numeric_default: "unparsable v \<Longrightarrow> or_zero (parseFloat (ToString v)) = Num 0"
  by (cases v) (simp_all add: unparsable_def ToString_def parseFloat_null or_zero_NaN)

lemma text_default: "missing v \<Longrightarrow> or_default v d = d"
  by (auto simp: missing_def or_default_def)


section \<open>Adding items\<close>

lemma handleAddSaree_dup:
  assumes "formData ''code'' = Some raw" "toUpperCase raw \<in> set (map code (sarees st))"
  shows "handleAddSaree now_ms now_iso formData st = Inr (st\<lparr>notification := Some DuplicateCode\<rparr>)"
  using assms by (simp add: handleAddSaree_def some_code_iff showNotification_def DuplicateCode_def)

lemma handleAddSaree_cases:
  "sarees (after (handleAddSaree now_ms now_iso formData st) st) = sarees st \<or>
   (\<exists>new raw. sarees (after (handleAddSaree now_ms now_iso formData st) st) = new # sarees st \<and>
      code new = toUpperCase raw \<and> toUpperCase raw \<notin> set (map code (sarees st)))"
  by (auto simp: handleAddSaree_def after_def some_code_iff showNotification_def Let_def
      split: option.splits)

lemma handleAddSaree_distinct:
  assumes "distinct (map code (sarees st))"
  shows "distinct (map code (sarees (after (handleAddSaree now_ms now_iso formData st) st)))"
  using handleAddSaree_cases [of now_ms now_iso formData st] assms by auto

lemma addItems_distinct:
  "distinct (map code (sarees st)) \<Longrightarrow> distinct (map code (sarees (addItems evs st)))"
proof (induction evs arbitrary: st)
  case Nil
  then show ?case by simp
next
  case (Cons ev evs)
  obtain a b f where ev: "ev = (a, b, f)" by (cases ev)
  show ?case unfolding ev addItems.simps
    by (rule Cons.IH) (rule handleAddSaree_distinct [OF Cons.prems])
qed

lemma handleAddSaree_normalized:
  assumes "normalized (sarees st)"
  shows "normalized (sarees (after (handleAddSaree now_ms now_iso formData st) st))"
  using handleAddSaree_cases [of now_ms now_iso formData st] assms
  by (auto simp: normalized_def toUpperCase_idem)

lemma addItems_normalized:
  "normalized (sarees st) \<Longrightarrow> normalized (sarees (addItems evs st))"
proof (induction evs arbitrary: st)
  case Nil
  then show ?case by simp
next
  case (Cons ev evs)
  obtain a b f where ev: "ev = (a, b, f)" by (cases ev)
  show ?case unfolding ev addItems.simps
    by (rule Cons.IH) (rule handleAddSaree_normalized [OF Cons.prems])
qed

lemma normalized_map: "normalized xs \<Longrightarrow> map (toUpperCase \<circ> code) xs = map code xs"
  by (simp add: normalized_def)

text \<open>
  C1. From a collection with unique codes, any sequence of submissions of the add form
  leaves the codes unique (and, when the codes were in upper case, unique after
  normalization); a submission whose upper-cased code is the code of an existing item
  shows the duplicate-code error and changes nothing else.
\<close>

theorem addItem_codes_unique:
  assumes "distinct (map code (sarees st))"
  shows "distinct (map code (sarees (addItems evs st))) \<and>
         (normalized (sarees st) \<longrightarrow>
            distinct (map (toUpperCase \<circ> code) (sarees (addItems evs st)))) \<and>
         (\<forall>now_ms now_iso formData raw.
            formData ''code'' = Some raw \<and> toUpperCase raw \<in> set (map code (sarees st)) \<longrightarrow>
            handleAddSaree now_ms now_iso formData st =
              Inr (st\<lparr>notification := Some DuplicateCode\<rparr>))"
proof (intro conjI impI allI)
  show d: "distinct (map code (sarees (addItems evs st)))"
    by (rule addItems_distinct [OF assms])
  show "distinct (map (toUpperCase \<circ> code) (sarees (addItems evs st)))" if "normalized (sarees st)"
  proof -
    have "map (toUpperCase \<circ> code) (sarees (addItems evs st)) = map code (sarees (addItems evs st))"
      by (rule normalized_map [OF addItems_normalized [OF that]])
    with d show ?thesis by (simp only:)
  qed
  show "handleAddSaree now_ms now_iso formData st = Inr (st\<lparr>notification := Some DuplicateCode\<rparr>)"
    if "formData ''code'' = Some raw \<and> toUpperCase raw \<in> set (map code (sarees st))"
    for now_ms now_iso formData raw
    using that handleAddSaree_dup by blast
qed

lemma toUpperCase_sar101: "toUpperCase ''sar101'' = ''SAR101''"
  by (simp add: toUpperCase_def toUpperChar_def)

lemma toUpperCase_sar102: "toUpperCase ''sar102'' = ''SAR102''"
  by (simp add: toUpperCase_def toUpperChar_def)

lemma toUpperCase_SAR101: "toUpperCase ''SAR101'' = ''SAR101''"
  by (simp add: toUpperCase_def toUpperChar_def)

lemma sarees_stock1: "sarees stock1 = [sample_item ''1'' ''SAR101'' ''available'']"
  by (simp add: stock1_def)

lemma code_sample_item: "code (sample_item i c stat) = c"
  by (simp add: sample_item_def)

lemma status_sample_item: "status (sample_item i c stat) = stat"
  by (simp add: sample_item_def)

theorem addItem_codes_unique_witness:
  "distinct (map code (sarees stock1)) \<and> normalized (sarees stock1) \<and>
   form_code_only ''code'' = Some ''sar101'' \<and>
   toUpperCase ''sar101'' \<in> set (map code (sarees stock1)) \<and>
   distinct (map code (sarees (addItems [(''2'', ''d2'', form2), (''3'', ''d3'', form_code_only)] stock1))) \<and>
   distinct (map (toUpperCase \<circ> code)
     (sarees (addItems [(''2'', ''d2'', form2), (''3'', ''d3'', form_code_only)] stock1))) \<and>
   handleAddSaree ''3'' ''d3'' form_code_only stock1 = Inr (stock1\<lparr>notification := Some DuplicateCode\<rparr>)"
proof -
  have d: "distinct (map code (sarees stock1))" by (simp add: sarees_stock1)
  have n: "normalized (sarees stock1)"
    by (simp add: normalized_def sarees_stock1 code_sample_item toUpperCase_SAR101)
  have f: "form_code_only ''code'' = Some ''sar101''" by (simp add: form_code_only_def)
  have m: "toUpperCase ''sar101'' \<in> set (map code (sarees stock1))"
    by (simp add: sarees_stock1 code_sample_item toUpperCase_sar101)
  from addItem_codes_unique [OF d, of "[(''2'', ''d2'', form2), (''3'', ''d3'', form_code_only)]"] d n f m
  show ?thesis by blast
qed

text \<open>
  C8 as stated fails: with no \<open>type\<close> in the form, the created item has the type
  \<open>Cotton\<close>, not \<open>N/A\<close>.
\<close>

theorem addItem_type_default_counterexample:
  "handleAddSaree ''1'' ''d1'' form_code_only initial_state =
     Inr (initial_state
       \<lparr>sarees := [\<lparr>id_saree = ''1'', code = ''SAR101'', shopName = ''Unknown Shop'',
                    shopCode = ''N/A'', type = Some ''Cotton'', cp = Num 0, mrp = Num 0,
                    asp60 = Num 0, status = ''available'', dateAdded = ''d1''\<rparr>],
        notification := Some (''Saree added! Code: SAR101'', ''success'')\<rparr>)
   \<and> form_code_only ''type'' = None
   \<and> Some ''Cotton'' \<noteq> Some ''N/A''"
  by (simp add: handleAddSaree_def form_code_only_def initial_state_def some_def
      toUpperCase_def toUpperChar_def or_default_def ToString_def parseFloat_null or_zero_NaN
      showNotification_def Let_def)

text \<open>
  C8, amended. When the form's code is new, the add form creates an item in front of the
  collection in which a price is 0 when its input is absent or parses to \<open>NaN\<close>, the shop
  name is \<open>Unknown Shop\<close>, the shop code \<open>N/A\<close> and the type \<open>Cotton\<close> when their input is
  absent or empty.
\<close>

theorem addItem_defaults:
  assumes "formData ''code'' = Some raw"
    and "toUpperCase raw \<notin> set (map code (sarees st))"
  shows "\<exists>new st'. handleAddSaree now_ms now_iso formData st = Inr st' \<and>
           sarees st' = new # sarees st \<and>
           (unparsable (formData ''cp'') \<longrightarrow> cp new = Num 0) \<and>
           (unparsable (formData ''mrp'') \<longrightarrow> mrp new = Num 0) \<and>
           (unparsable (formData ''asp60'') \<longrightarrow> asp60 new = Num 0) \<and>
           (missing (formData ''shopName'') \<longrightarrow> shopName new = ''Unknown Shop'') \<and>
           (missing (formData ''shopCode'') \<longrightarrow> shopCode new = ''N/A'') \<and>
           (missing (formData ''type'') \<longrightarrow> type new = Some ''Cotton'')"
  using assms
  by (simp add: handleAddSaree_def some_code_iff showNotification_def Let_def
      numeric_default text_default)

theorem addItem_defaults_witness:
  "form2 ''code'' = Some ''sar102'' \<and> toUpperCase ''sar102'' \<notin> set (map code (sarees initial_state)) \<and>
   unparsable (form2 ''cp'') \<and> unparsable (form2 ''mrp'') \<and> \<not> unparsable (form2 ''asp60'') \<and>
   missing (form2 ''shopName'') \<and> missing (form2 ''shopCode'') \<and> missing (form2 ''type'') \<and>
   (\<exists>new st'. handleAddSaree ''2'' ''d2'' form2 initial_state = Inr st' \<and>
      sarees st' = [new] \<and> cp new = Num 0 \<and> mrp new = Num 0 \<and>
      shopName new = ''Unknown Shop'' \<and> shopCode new = ''N/A'' \<and> type new = Some ''Cotton'')"
proof -
  have c: "form2 ''code'' = Some ''sar102''" by (simp add: form2_def)
  have n: "toUpperCase ''sar102'' \<notin> set (map code (sarees initial_state))"
    by (simp add: initial_state_def)
  have u1: "unparsable (form2 ''cp'')"
    by (simp add: form2_def unparsable_def parseFloat_def split_sign_def trimStart_def
        is_digit_def is_space_def)
  have u2: "unparsable (form2 ''mrp'')"
    by (simp add: form2_def unparsable_def parseFloat_def split_sign_def trimStart_def
        is_digit_def is_space_def)
  have u3: "\<not> unparsable (form2 ''asp60'')"
    by (simp add: form2_def unparsable_def parseFloat_def split_sign_def trimStart_def
        is_digit_def is_space_def)
  have m: "missing (form2 ''shopName'')" "missing (form2 ''shopCode'')" "missing (form2 ''type'')"
    by (simp_all add: form2_def missing_def)
  have e: "sarees initial_state = []" by (simp add: initial_state_def)
  from addItem_defaults [where formData = form2 and raw = "''sar102''" and st = initial_state
      and now_ms = "''2''" and now_iso = "''d2''", OF c n] c n u1 u2 u3 m
  show ?thesis unfolding e by blast
qed

section \<open>Checkout\<close>

text \<open>
  C2. For a cart of N distinct available items over an inventory with unique codes,
  checkout puts N new sales, one per cart line in cart order, in front of the sales
  collection, all with the one timestamp and the selected payment method; it sets the
  status of exactly the items whose code is in the cart to \<open>sold\<close>, so that N more items
  are sold, and empties the cart. On an empty cart it returns the state unchanged.
\<close>

theorem checkout_batch:
  "(checkout_ready st \<longrightarrow>
      (\<exists>newSales.
         sales (completeSaleTransaction ids ts st) = newSales @ sales st \<and>
         length newSales = length (cart st) \<and>
         map sareeCode newSales = cart_codes (cart st) \<and>
         (\<forall>sl \<in> set newSales. saleDate sl = ts \<and> paymentMethod sl = paymentMethod_state st) \<and>
         sarees (completeSaleTransaction ids ts st) =
           map (\<lambda>s. if code s \<in> set (cart_codes (cart st)) then s\<lparr>status := ''sold''\<rparr> else s)
             (sarees st) \<and>
         sold_count (sarees (completeSaleTransaction ids ts st)) =
           sold_count (sarees st) + length (cart st) \<and>
         cart (completeSaleTransaction ids ts st) = [])) \<and>
   (cart st = [] \<longrightarrow> completeSaleTransaction ids ts st = st)"
proof (intro conjI impI)
  show "completeSaleTransaction ids ts st = st" if "cart st = []"
    using that by (simp add: completeSaleTransaction_def)
next
  assume ready: "checkout_ready st"
  let ?new = "map (\<lambda>(i, ci). \<lparr>id_sale = ids i, sareeCode = code (saree ci),
                    salePrice = finalPrice ci, paymentMethod = paymentMethod_state st,
                    saleDate = ts\<rparr>) (zip [0 ..< length (cart st)] (cart st))"
  let ?C = "cart_codes (cart st)"
  let ?st' = "completeSaleTransaction ids ts st"
  from ready have d: "distinct (map code (sarees st))" and dc: "distinct ?C"
    and av: "\<forall>c \<in> set ?C. \<exists>s \<in> set (sarees st). code s = c \<and> status s = ''available''"
    by (simp_all add: checkout_ready_def)
  have sub: "set ?C \<subseteq> set (map code (sarees st))" using av by auto
  have nots: "\<forall>s \<in> set (sarees st). code s \<in> set ?C \<longrightarrow> status s \<noteq> ''sold''"
  proof (intro ballI impI)
    fix s assume s: "s \<in> set (sarees st)" "code s \<in> set ?C"
    with av obtain s' where s': "s' \<in> set (sarees st)" "code s' = code s" "status s' = ''available''"
      by auto
    with d s(1) have "s' = s" by (meson distinct_map inj_onD)
    with s'(3) show "status s \<noteq> ''sold''" by simp
  qed
  have marked: "length (filter (\<lambda>s. code s \<in> set ?C) (sarees st)) = length (cart st)"
    using count_marked_code [OF d dc sub] by (simp add: cart_codes_def)
  show "\<exists>newSales.
         sales ?st' = newSales @ sales st \<and>
         length newSales = length (cart st) \<and>
         map sareeCode newSales = ?C \<and>
         (\<forall>sl \<in> set newSales. saleDate sl = ts \<and> paymentMethod sl = paymentMethod_state st) \<and>
         sarees ?st' =
           map (\<lambda>s. if code s \<in> set ?C then s\<lparr>status := ''sold''\<rparr> else s) (sarees st) \<and>
         sold_count (sarees ?st') = sold_count (sarees st) + length (cart st) \<and>
         cart ?st' = []"
  proof (cases "cart st = []")
    case True
    then show ?thesis
      by (simp add: completeSaleTransaction_def cart_codes_def sold_count_def map_idI)
  next
    case False
    note u = completeSaleTransaction_unfold [OF False, of ids ts]
    have s1: "sales ?st' = ?new @ sales st" by (simp add: u)
    have s2: "length ?new = length (cart st)" by simp
    have s3: "map sareeCode ?new = ?C"
      by (rule nth_equalityI) (simp_all add: cart_codes_def)
    have s4: "\<forall>sl \<in> set ?new. saleDate sl = ts \<and> paymentMethod sl = paymentMethod_state st"
      by auto
    have s5: "sarees ?st' =
               map (\<lambda>s. if code s \<in> set ?C then s\<lparr>status := ''sold''\<rparr> else s) (sarees st)"
      using fold_mark_sold_map [OF d, of "cart st"] by (simp add: u cart_codes_def)
    have s6: "sold_count (sarees ?st') = sold_count (sarees st) + length (cart st)"
      unfolding s5 sold_count_def sold_count_map [OF nots] marked by simp
    have s7: "cart ?st' = []" by (simp add: u)
    from s1 s2 s3 s4 s5 s6 s7 show ?thesis by blast
  qed
qed

lemma sarees_pos1:
  "sarees pos1 = [sample_item ''1'' ''SAR101'' ''available'', sample_item ''2'' ''SAR102'' ''available'',
                 sample_item ''3'' ''SAR103'' ''sold'']"
  by (simp add: pos1_def)

lemma cart_codes_pos1: "cart_codes (cart pos1) = [''SAR101'', ''SAR102'']"
  by (simp add: pos1_def cart_codes_def sample_line_def code_sample_item)

lemma ready_pos1: "checkout_ready pos1"
  by (simp add: checkout_ready_def sarees_pos1 cart_codes_pos1 code_sample_item status_sample_item)

theorem checkout_batch_witness:
  "checkout_ready pos1 \<and> length (cart pos1) = 2 \<and> sold_count (sarees pos1) = 1 \<and>
   (\<exists>newSales.
      sales (completeSaleTransaction sample_ids ''2/1/2024, 9:00:00 AM'' pos1) = newSales @ sales pos1 \<and>
      length newSales = 2 \<and>
      map sareeCode newSales = [''SAR101'', ''SAR102''] \<and>
      (\<forall>sl \<in> set newSales. saleDate sl = ''2/1/2024, 9:00:00 AM'' \<and> paymentMethod sl = ''Cash'') \<and>
      sold_count (sarees (completeSaleTransaction sample_ids ''2/1/2024, 9:00:00 AM'' pos1)) = 3 \<and>
      cart (completeSaleTransaction sample_ids ''2/1/2024, 9:00:00 AM'' pos1) = []) \<and>
   cart initial_state = [] \<and>
   completeSaleTransaction sample_ids ''2/1/2024, 9:00:00 AM'' initial_state = initial_state"
proof -
  have l: "length (cart pos1) = 2" by (simp add: pos1_def)
  have c: "sold_count (sarees pos1) = 1"
    by (simp add: sold_count_def sarees_pos1 status_sample_item)
  have p: "paymentMethod_state pos1 = ''Cash''" by (simp add: pos1_def)
  have e: "cart initial_state = []" by (simp add: initial_state_def)
  from checkout_batch [of pos1 sample_ids "''2/1/2024, 9:00:00 AM''"] ready_pos1
  obtain newSales where n:
    "sales (completeSaleTransaction sample_ids ''2/1/2024, 9:00:00 AM'' pos1) = newSales @ sales pos1"
    "length newSales = length (cart pos1)"
    "map sareeCode newSales = cart_codes (cart pos1)"
    "\<forall>sl \<in> set newSales. saleDate sl = ''2/1/2024, 9:00:00 AM'' \<and> paymentMethod sl = paymentMethod_state pos1"
    "sold_count (sarees (completeSaleTransaction sample_ids ''2/1/2024, 9:00:00 AM'' pos1)) =
       sold_count (sarees pos1) + length (cart pos1)"
    "cart (completeSaleTransaction sample_ids ''2/1/2024, 9:00:00 AM'' pos1) = []"
    by blast
  have "completeSaleTransaction sample_ids ''2/1/2024, 9:00:00 AM'' initial_state = initial_state"
    using checkout_batch [of initial_state sample_ids "''2/1/2024, 9:00:00 AM''"] e by blast
  with n ready_pos1 l c p e show ?thesis
    by (simp only: cart_codes_pos1) auto
qed

section \<open>Returns\<close>

lemma processReturn_NotFound:
  assumes "c \<notin> set (map code (sarees st))"
  shows "processReturn c st = (False, st\<lparr>notification := Some (NotFound c)\<rparr>)"
proof -
  from assms have "findIndex (\<lambda>s. code s = c) (sarees st) = None"
    by (auto simp: findIndex_None_iff)
  then show ?thesis by (simp add: processReturn_def showNotification_def NotFound_def)
qed

lemma processReturn_AlreadyAvailable:
  assumes "findIndex (\<lambda>s. code s = c) (sarees st) = Some k"
    and "status (sarees st ! k) = ''available''"
  shows "processReturn c st = (False, st\<lparr>notification := Some (AlreadyAvailable c)\<rparr>)"
  using assms by (simp add: processReturn_def showNotification_def AlreadyAvailable_def)

lemma processReturn_success:
  assumes "findIndex (\<lambda>s. code s = c) (sarees st) = Some k"
    and "status (sarees st ! k) \<noteq> ''available''"
  shows "processReturn c st =
           (True,
            st\<lparr>sarees := (sarees st)[k := (sarees st ! k)\<lparr>status := ''available''\<rparr>],
               sales := filter (\<lambda>sl. sareeCode sl \<noteq> c) (sales st),
               notification := Some (''Return Successful! '' @ c @ '' is back in inventory.'', ''success'')\<rparr>)"
  using assms by (simp add: processReturn_def showNotification_def)

lemma sell_then_return:
  fixes ids :: "nat \<Rightarrow> string" and ts :: string
  assumes "fst (addToCart c st)"
  defines "st2 \<equiv> completeSaleTransaction ids ts (snd (addToCart c st))"
  shows "fst (processReturn c st2) \<and>
         (\<exists>s. find (\<lambda>s. code s = c) (sarees (snd (processReturn c st2))) = Some s \<and>
               status s = ''available'') \<and>
         (\<forall>sl \<in> set (sales (snd (processReturn c st2))). sareeCode sl \<noteq> c) \<and>
         processReturn c (snd (processReturn c st2)) =
           (False, (snd (processReturn c st2))\<lparr>notification := Some (AlreadyAvailable c)\<rparr>)"
proof -
  from addToCart_True [OF assms(1)] obtain sr where
    sr: "find (\<lambda>s. code s = c) (sarees st) = Some sr"
    and st1: "snd (addToCart c st) =
             st\<lparr>cart := cart st @ [\<lparr>saree = sr, selection = ''MRP'',
                    customPrice = (if falsy_num (mrp sr) then S [] else N (mrp sr))\<rparr>],
                notification := Some (''Added '' @ c @ '' to Cart.'', ''success'')\<rparr>"
    by blast
  let ?st1 = "snd (addToCart c st)"
  from sr have csr: "code sr = c" by (auto dest: find_Some_iff [THEN iffD1])
  from find_findIndex [OF sr] obtain k where k: "findIndex (\<lambda>s. code s = c) (sarees st) = Some k"
    by blast
  have ne: "cart ?st1 \<noteq> []" by (simp add: st1)
  have inc: "c \<in> set (map (\<lambda>ci. code (saree ci)) (cart ?st1))" by (simp add: st1 csr)
  have s1: "sarees ?st1 = sarees st" by (simp add: st1)
  have us: "sarees st2 = fold (\<lambda>ci. mark_sold (code (saree ci))) (cart ?st1) (sarees st)"
    unfolding st2_def completeSaleTransaction_unfold [OF ne] by (simp add: s1)
  have mc: "map code (sarees st2) = map code (sarees st)"
    by (simp add: us map_code_fold)
  have k2: "findIndex (\<lambda>s. code s = c) (sarees st2) = Some k"
    using findIndex_code_cong [OF mc, of c] k by simp
  have sold: "status (sarees st2 ! k) = ''sold''"
    unfolding us by (rule fold_marks [OF k inc])
  then have na: "status (sarees st2 ! k) \<noteq> ''available''" by simp
  let ?st3 = "snd (processReturn c st2)"
  note r = processReturn_success [OF k2 na]
  have kl: "k < length (sarees st2)" using findIndex_Some [OF k2] by simp
  have mc3: "map code (sarees ?st3) = map code (sarees st2)"
    by (simp add: r map_code_update [OF kl])
  have k3: "findIndex (\<lambda>s. code s = c) (sarees ?st3) = Some k"
    using findIndex_code_cong [OF mc3, of c] k2 by simp
  have av: "status (sarees ?st3 ! k) = ''available''"
    using kl by (simp add: r)
  have "fst (processReturn c st2)" by (simp add: r)
  moreover have "\<exists>s. find (\<lambda>s. code s = c) (sarees ?st3) = Some s \<and> status s = ''available''"
    using findIndex_find [OF k3] av by simp
  moreover have "\<forall>sl \<in> set (sales ?st3). sareeCode sl \<noteq> c" by (simp add: r)
  moreover have "processReturn c ?st3 = (False, ?st3\<lparr>notification := Some (AlreadyAvailable c)\<rparr>)"
    by (rule processReturn_AlreadyAvailable [OF k3 av])
  ultimately show ?thesis by blast
qed

text \<open>
  C3. A return of a code that no item has shows the not-found error; a return of an
  item whose status is \<open>available\<close> shows the already-available error; both leave the
  collections as they are. Otherwise the item (the first with the code) gets the status
  \<open>available\<close> and every sale with that code is deleted. After a successful sale of a
  code through the cart, its return succeeds, the item is available, no sale has the
  code, and a second return shows the already-available error.
\<close>

theorem processReturn_outcomes:
  "(c \<notin> set (map code (sarees st)) \<longrightarrow>
      processReturn c st = (False, st\<lparr>notification := Some (NotFound c)\<rparr>)) \<and>
   (\<forall>k. findIndex (\<lambda>s. code s = c) (sarees st) = Some k \<and> status (sarees st ! k) = ''available'' \<longrightarrow>
      processReturn c st = (False, st\<lparr>notification := Some (AlreadyAvailable c)\<rparr>)) \<and>
   (\<forall>k. findIndex (\<lambda>s. code s = c) (sarees st) = Some k \<and> status (sarees st ! k) \<noteq> ''available'' \<longrightarrow>
      fst (processReturn c st) \<and>
      sarees (snd (processReturn c st)) = (sarees st)[k := (sarees st ! k)\<lparr>status := ''available''\<rparr>] \<and>
      sales (snd (processReturn c st)) = filter (\<lambda>sl. sareeCode sl \<noteq> c) (sales st)) \<and>
   (fst (addToCart c st) \<longrightarrow>
      fst (processReturn c (completeSaleTransaction ids ts (snd (addToCart c st)))) \<and>
      (\<exists>s. find (\<lambda>s. code s = c)
              (sarees (snd (processReturn c (completeSaleTransaction ids ts (snd (addToCart c st)))))) = Some s \<and>
            status s = ''available'') \<and>
      (\<forall>sl \<in> set (sales (snd (processReturn c (completeSaleTransaction ids ts (snd (addToCart c st)))))).
          sareeCode sl \<noteq> c) \<and>
      processReturn c (snd (processReturn c (completeSaleTransaction ids ts (snd (addToCart c st))))) =
        (False, (snd (processReturn c (completeSaleTransaction ids ts (snd (addToCart c st)))))
                  \<lparr>notification := Some (AlreadyAvailable c)\<rparr>))"
proof (intro conjI allI impI)
  show "processReturn c st = (False, st\<lparr>notification := Some (NotFound c)\<rparr>)"
    if "c \<notin> set (map code (sarees st))"
    by (rule processReturn_NotFound [OF that])
next
  fix k
  assume "findIndex (\<lambda>s. code s = c) (sarees st) = Some k \<and> status (sarees st ! k) = ''available''"
  then show "processReturn c st = (False, st\<lparr>notification := Some (AlreadyAvailable c)\<rparr>)"
    by (simp add: processReturn_AlreadyAvailable)
next
  fix k
  assume a: "findIndex (\<lambda>s. code s = c) (sarees st) = Some k \<and> status (sarees st ! k) \<noteq> ''available''"
  from a have r: "processReturn c st =
           (True,
            st\<lparr>sarees := (sarees st)[k := (sarees st ! k)\<lparr>status := ''available''\<rparr>],
               sales := filter (\<lambda>sl. sareeCode sl \<noteq> c) (sales st),
               notification := Some (''Return Successful! '' @ c @ '' is back in inventory.'', ''success'')\<rparr>)"
    by (simp add: processReturn_success)
  show "fst (processReturn c st)" by (simp add: r)
  show "sarees (snd (processReturn c st)) = (sarees st)[k := (sarees st ! k)\<lparr>status := ''available''\<rparr>]"
    by (simp add: r)
  show "sales (snd (processReturn c st)) = filter (\<lambda>sl. sareeCode sl \<noteq> c) (sales st)"
    by (simp add: r)
next
  assume a: "fst (addToCart c st)"
  note s = sell_then_return [OF a, of ids ts]
  show "fst (processReturn c (completeSaleTransaction ids ts (snd (addToCart c st))))"
    using s by blast
  show "\<exists>s. find (\<lambda>s. code s = c)
              (sarees (snd (processReturn c (completeSaleTransaction ids ts (snd (addToCart c st)))))) = Some s \<and>
            status s = ''available''"
    using s by blast
  show "\<forall>sl \<in> set (sales (snd (processReturn c (completeSaleTransaction ids ts (snd (addToCart c st)))))).
          sareeCode sl \<noteq> c"
    using s by blast
  show "processReturn c (snd (processReturn c (completeSaleTransaction ids ts (snd (addToCart c st))))) =
        (False, (snd (processReturn c (completeSaleTransaction ids ts (snd (addToCart c st)))))
                  \<lparr>notification := Some (AlreadyAvailable c)\<rparr>)"
    using s by blast
qed

lemma findIndex_stock1: "findIndex (\<lambda>s. code s = ''SAR101'') (sarees stock1) = Some 0"
  by (simp add: sarees_stock1 code_sample_item)

lemma findIndex_pos1: "findIndex (\<lambda>s. code s = ''SAR103'') (sarees pos1) = Some 2"
  by (simp add: sarees_pos1 code_sample_item)

lemma addToCart_stock1: "fst (addToCart ''SAR101'' stock1)"
  by (simp add: addToCart_def sarees_stock1 code_sample_item status_sample_item some_def
      stock1_def initial_state_def)

theorem processReturn_outcomes_witness:
  "''XYZ'' \<notin> set (map code (sarees stock1)) \<and>
   processReturn ''XYZ'' stock1 = (False, stock1\<lparr>notification := Some (NotFound ''XYZ'')\<rparr>) \<and>
   findIndex (\<lambda>s. code s = ''SAR101'') (sarees stock1) = Some 0 \<and>
   status (sarees stock1 ! 0) = ''available'' \<and>
   processReturn ''SAR101'' stock1 = (False, stock1\<lparr>notification := Some (AlreadyAvailable ''SAR101'')\<rparr>) \<and>
   findIndex (\<lambda>s. code s = ''SAR103'') (sarees pos1) = Some 2 \<and>
   status (sarees pos1 ! 2) \<noteq> ''available'' \<and>
   fst (processReturn ''SAR103'' pos1) \<and>
   sales (snd (processReturn ''SAR103'' pos1)) = [] \<and>
   fst (addToCart ''SAR101'' stock1) \<and>
   fst (processReturn ''SAR101'' (completeSaleTransaction sample_ids ''now'' (snd (addToCart ''SAR101'' stock1)))) \<and>
   processReturn ''SAR101''
     (snd (processReturn ''SAR101''
        (completeSaleTransaction sample_ids ''now'' (snd (addToCart ''SAR101'' stock1))))) =
     (False,
      (snd (processReturn ''SAR101''
         (completeSaleTransaction sample_ids ''now'' (snd (addToCart ''SAR101'' stock1)))))
        \<lparr>notification := Some (AlreadyAvailable ''SAR101'')\<rparr>)"
proof -
  have a: "''XYZ'' \<notin> set (map code (sarees stock1))"
    by (simp add: sarees_stock1 code_sample_item)
  have b: "status (sarees stock1 ! 0) = ''available''"
    by (simp add: sarees_stock1 status_sample_item)
  have c: "status (sarees pos1 ! 2) \<noteq> ''available''"
    by (simp add: sarees_pos1 status_sample_item)
  have d: "filter (\<lambda>sl. sareeCode sl \<noteq> ''SAR103'') (sales pos1) = []"
    by (simp add: pos1_def)
  note t1 = processReturn_outcomes [of "''XYZ''" stock1 sample_ids "''now''"]
  note t2 = processReturn_outcomes [of "''SAR101''" stock1 sample_ids "''now''"]
  note t3 = processReturn_outcomes [of "''SAR103''" pos1 sample_ids "''now''"]
  have r1: "processReturn ''XYZ'' stock1 = (False, stock1\<lparr>notification := Some (NotFound ''XYZ'')\<rparr>)"
    using t1 a by blast
  have r2: "processReturn ''SAR101'' stock1 =
      (False, stock1\<lparr>notification := Some (AlreadyAvailable ''SAR101'')\<rparr>)"
    using t2 findIndex_stock1 b by blast
  have r3: "fst (processReturn ''SAR103'' pos1) \<and>
      sales (snd (processReturn ''SAR103'' pos1)) = filter (\<lambda>sl. sareeCode sl \<noteq> ''SAR103'') (sales pos1)"
    using t3 findIndex_pos1 c by blast
  have r4: "fst (processReturn ''SAR101'' (completeSaleTransaction sample_ids ''now'' (snd (addToCart ''SAR101'' stock1)))) \<and>
   processReturn ''SAR101''
     (snd (processReturn ''SAR101''
        (completeSaleTransaction sample_ids ''now'' (snd (addToCart ''SAR101'' stock1))))) =
     (False,
      (snd (processReturn ''SAR101''
         (completeSaleTransaction sample_ids ''now'' (snd (addToCart ''SAR101'' stock1)))))
        \<lparr>notification := Some (AlreadyAvailable ''SAR101'')\<rparr>)"
    using t2 addToCart_stock1 by blast
  from a b c r1 r2 r3 r4 findIndex_stock1 findIndex_pos1 addToCart_stock1 show ?thesis
    unfolding d by blast
qed

section \<open>Export of an empty collection\<close>

text \<open>
  C10. Exporting an empty collection produces no file: the call returns with the
  error notification. A file is produced exactly when the collection has a record, and
  in both cases the two collections stay as they are.
\<close>

theorem export_empty:
  "exportToCSV numText today [] filename st =
     (None, st\<lparr>notification := Some (''No data available to export!'', ''error'')\<rparr>) \<and>
   (fst (exportToCSV numText today data filename st) = None) = (data = []) \<and>
   sarees (snd (exportToCSV numText today data filename st)) = sarees st \<and>
   sales (snd (exportToCSV numText today data filename st)) = sales st"
  by (cases data) (simp_all add: exportToCSV_def showNotification_def)

section \<open>Properties of the bulk import\<close>

lemma code_import_item: "code (import_item i d cols values c) = c"
  by (simp add: import_item_def)

lemma import_row_code:
  "import_row now_ms now_iso delimiter cols k stock i row (new, a, d) =
     (case row_code delimiter k row of
        None \<Rightarrow> (new, a, d)
      | Some c \<Rightarrow>
          if c \<in> set (map code stock) \<or> c \<in> set (map code new) then (new, a, Suc d)
          else (new @ [import_item (now_ms i @ String_nat i) (now_iso i) cols
                         (parseCSVRow delimiter row) c], Suc a, d))"
  by (simp add: import_row_def row_code_def Let_def some_code_iff)

lemma accepted_codes_set: "set (accepted_codes seen cs) = set cs - set seen"
  by (induction cs arbitrary: seen) auto

lemma accepted_codes_distinct: "distinct (accepted_codes seen cs)"
  by (induction cs arbitrary: seen) (auto simp: accepted_codes_set)

lemma accepted_codes_subseq: "subseq (accepted_codes seen cs) cs"
  by (induction cs arbitrary: seen) auto

lemma batch_codes_Cons:
  "batch_codes delimiter k (row # rows) =
     (case row_code delimiter k row of None \<Rightarrow> [] | Some c \<Rightarrow> [c]) @ batch_codes delimiter k rows"
  by (simp add: batch_codes_def List.map_filter_simps split: option.splits)

lemma import_loop_codes:
  assumes "import_loop now_ms now_iso delimiter cols k stock i rows (new, a, d) = (new', a', d')"
  shows "(\<exists>ext. new' = new @ ext \<and>
            map code ext = accepted_codes (map code stock @ map code new) (batch_codes delimiter k rows)) \<and>
         a' = a + length (accepted_codes (map code stock @ map code new) (batch_codes delimiter k rows)) \<and>
         a' + d' = a + d + length (batch_codes delimiter k rows)"
  using assms
proof (induction rows arbitrary: i new a d)
  case Nil
  then show ?case by (simp add: batch_codes_def List.map_filter_simps)
next
  case (Cons row rows)
  show ?case
  proof (cases "row_code delimiter k row")
    case None
    with Cons.prems have "import_loop now_ms now_iso delimiter cols k stock (Suc i) rows (new, a, d) = (new', a', d')"
      by (simp add: import_row_code)
    from Cons.IH [OF this] None show ?thesis by (simp add: batch_codes_Cons)
  next
    case (Some c)
    show ?thesis
    proof (cases "c \<in> set (map code stock) \<or> c \<in> set (map code new)")
      case True
      with Some Cons.prems
      have "import_loop now_ms now_iso delimiter cols k stock (Suc i) rows (new, a, Suc d) = (new', a', d')"
        by (simp add: import_row_code)
      from Cons.IH [OF this] Some True show ?thesis by (auto simp: batch_codes_Cons)
    next
      case False
      let ?it = "import_item (now_ms i @ String_nat i) (now_iso i) cols (parseCSVRow delimiter row) c"
      from False Some Cons.prems
      have "import_loop now_ms now_iso delimiter cols k stock (Suc i) rows (new @ [?it], Suc a, d) = (new', a', d')"
        by (simp add: import_row_code)
      from Cons.IH [OF this] obtain ext where
        ext: "new' = (new @ [?it]) @ ext"
          "map code ext = accepted_codes (map code stock @ map code (new @ [?it])) (batch_codes delimiter k rows)"
        and cnt: "a' = Suc a + length (accepted_codes (map code stock @ map code (new @ [?it])) (batch_codes delimiter k rows))"
          "a' + d' = Suc a + d + length (batch_codes delimiter k rows)"
        by blast
      have "new' = new @ (?it # ext)" using ext(1) by simp
      moreover have "map code (?it # ext) =
          accepted_codes (map code stock @ map code new) (batch_codes delimiter k (row # rows))"
        using ext(2) False Some by (simp add: batch_codes_Cons code_import_item)
      moreover have "a' = a + length (accepted_codes (map code stock @ map code new) (batch_codes delimiter k (row # rows)))"
        using cnt(1) False Some by (simp add: batch_codes_Cons code_import_item)
      moreover have "a' + d' = a + d + length (batch_codes delimiter k (row # rows))"
        using cnt(2) Some by (simp add: batch_codes_Cons)
      ultimately show ?thesis by blast
    qed
  qed
qed

lemma at_most_one:
  assumes "distinct (map f xs)"
  shows "length (filter (\<lambda>x. f x = c) xs) \<le> 1"
  using assms by (induction xs) (auto simp: filter_empty_conv image_iff)

text \<open>
  C4. The row loop of the import, started with empty accumulators: it adds at most one
  item per code, namely for the codes of the batch that the stock does not have, and
  counts every other row with a code as a duplicate. So two rows with the same new code
  give one item and one duplicate, a row whose code is in the stock gives no item and
  one duplicate, and a row is a duplicate when its code is the code of an item of the
  stock or of an item accepted earlier in the batch.
\<close>

theorem import_dedup:
  assumes "import_loop now_ms now_iso delimiter cols k stock 1 rows ([], 0, 0) =
             (newSarees, addedCount, duplicateCount)"
  shows "distinct (map code newSarees) \<and>
         set (map code newSarees) = set (batch_codes delimiter k rows) - set (map code stock) \<and>
         (\<forall>c. length (filter (\<lambda>s. code s = c) newSarees) \<le> 1) \<and>
         addedCount = length newSarees \<and>
         addedCount + duplicateCount = length (batch_codes delimiter k rows) \<and>
         (\<forall>c. batch_codes delimiter k rows = [c, c] \<and> c \<notin> set (map code stock) \<longrightarrow>
              map code newSarees = [c] \<and> addedCount = 1 \<and> duplicateCount = 1) \<and>
         (\<forall>c. batch_codes delimiter k rows = [c] \<and> c \<in> set (map code stock) \<longrightarrow>
              newSarees = [] \<and> addedCount = 0 \<and> duplicateCount = 1) \<and>
         (\<forall>i row new a d c.
            row_code delimiter k row = Some c \<and>
            (c \<in> set (map code stock) \<or> c \<in> set (map code new)) \<longrightarrow>
            import_row now_ms now_iso delimiter cols k stock i row (new, a, d) = (new, a, Suc d))"
proof -
  let ?cs = "batch_codes delimiter k rows"
  from import_loop_codes [OF assms]
  have m: "map code newSarees = accepted_codes (map code stock) ?cs"
    and a: "addedCount = length (accepted_codes (map code stock) ?cs)"
    and t: "addedCount + duplicateCount = length ?cs"
    by auto
  have d: "distinct (map code newSarees)" by (simp only: m accepted_codes_distinct)
  have s: "set (map code newSarees) = set ?cs - set (map code stock)"
    by (simp only: m accepted_codes_set)
  have "length (map code newSarees) = length (accepted_codes (map code stock) ?cs)"
    by (simp only: m)
  then have l: "addedCount = length newSarees" using a by simp
  have two: "\<forall>c. ?cs = [c, c] \<and> c \<notin> set (map code stock) \<longrightarrow>
      map code newSarees = [c] \<and> addedCount = 1 \<and> duplicateCount = 1"
  proof (intro allI impI)
    fix c assume h: "?cs = [c, c] \<and> c \<notin> set (map code stock)"
    then have "accepted_codes (map code stock) ?cs = [c]" by simp
    with m a t h show "map code newSarees = [c] \<and> addedCount = 1 \<and> duplicateCount = 1" by simp
  qed
  have one: "\<forall>c. ?cs = [c] \<and> c \<in> set (map code stock) \<longrightarrow>
      newSarees = [] \<and> addedCount = 0 \<and> duplicateCount = 1"
  proof (intro allI impI)
    fix c assume h: "?cs = [c] \<and> c \<in> set (map code stock)"
    then have "accepted_codes (map code stock) ?cs = []" by simp
    with m a t h show "newSarees = [] \<and> addedCount = 0 \<and> duplicateCount = 1" by simp
  qed
  have row: "\<forall>i row new a d c.
      row_code delimiter k row = Some c \<and> (c \<in> set (map code stock) \<or> c \<in> set (map code new)) \<longrightarrow>
      import_row now_ms now_iso delimiter cols k stock i row (new, a, d) = (new, a, Suc d)"
    by (auto simp: import_row_code)
  have am: "\<forall>c. length (filter (\<lambda>s. code s = c) newSarees) \<le> 1"
    using at_most_one [OF d] by blast
  show ?thesis
    by (rule conjI [OF d conjI [OF s conjI [OF am conjI [OF l conjI [OF t conjI [OF two conjI [OF one row]]]]]]])
qed

lemma loop3:
  "import_loop sample_clock sample_iso CHR '','' code_cols 0 (sarees stock1) 1
     [''x9'', ''X9'', ''sar101''] ([], 0, 0) = ([imported ''1700000000001'' ''X9''], 1, 2)"
  by code_simp

lemma loop2:
  "import_loop sample_clock sample_iso CHR '','' code_cols 0 [] 1 [''x9'', ''X9''] ([], 0, 0) =
     ([imported ''1700000000001'' ''X9''], 1, 1)"
  by code_simp

lemma loop1:
  "import_loop sample_clock sample_iso CHR '','' code_cols 0 (sarees stock1) 1 [''sar101''] ([], 0, 0) =
     ([], 0, 1)"
  by code_simp

lemma codes3: "batch_codes CHR '','' 0 [''x9'', ''X9'', ''sar101''] = [''X9'', ''X9'', ''SAR101'']"
  by code_simp

lemma codes2: "batch_codes CHR '','' 0 [''x9'', ''X9''] = [''X9'', ''X9'']"
  by code_simp

lemma codes1: "batch_codes CHR '','' 0 [''sar101''] = [''SAR101'']"
  by code_simp

lemma row_code_sar101: "row_code CHR '','' 0 ''sar101'' = Some ''SAR101''"
  by code_simp

theorem import_dedup_witness:
  "import_loop sample_clock sample_iso CHR '','' code_cols 0 (sarees stock1) 1
     [''x9'', ''X9'', ''sar101''] ([], 0, 0) = ([imported ''1700000000001'' ''X9''], 1, 2) \<and>
   batch_codes CHR '','' 0 [''x9'', ''X9'', ''sar101''] = [''X9'', ''X9'', ''SAR101''] \<and>
   distinct (map code [imported ''1700000000001'' ''X9'']) \<and>
   (1::nat) + 2 = length (batch_codes CHR '','' 0 [''x9'', ''X9'', ''sar101'']) \<and>
   batch_codes CHR '','' 0 [''x9'', ''X9''] = [''X9'', ''X9''] \<and> ''X9'' \<notin> set (map code ([] :: saree list)) \<and>
   import_loop sample_clock sample_iso CHR '','' code_cols 0 [] 1 [''x9'', ''X9''] ([], 0, 0) =
     ([imported ''1700000000001'' ''X9''], 1, 1) \<and>
   batch_codes CHR '','' 0 [''sar101''] = [''SAR101''] \<and> ''SAR101'' \<in> set (map code (sarees stock1)) \<and>
   import_loop sample_clock sample_iso CHR '','' code_cols 0 (sarees stock1) 1 [''sar101''] ([], 0, 0) =
     ([], 0, 1) \<and>
   row_code CHR '','' 0 ''sar101'' = Some ''SAR101'' \<and>
   import_row sample_clock sample_iso CHR '','' code_cols 0 (sarees stock1) 7 ''sar101'' ([], 0, 0) =
     ([], 0, 1)"
proof -
  note t3 = import_dedup [OF loop3]
  note t2 = import_dedup [OF loop2]
  note t1 = import_dedup [OF loop1]
  have d: "distinct (map code [imported ''1700000000001'' ''X9''])" by (rule t3 [THEN conjunct1])
  have s: "(1::nat) + 2 = length (batch_codes CHR '','' 0 [''x9'', ''X9'', ''sar101''])"
    by (rule t3 [THEN conjunct2, THEN conjunct2, THEN conjunct2, THEN conjunct2, THEN conjunct1])
  have n: "''X9'' \<notin> set (map code ([] :: saree list))" by simp
  have two: "map code [imported ''1700000000001'' ''X9''] = [''X9''] \<and> (1::nat) = 1 \<and> (1::nat) = 1"
    by (rule t2 [THEN conjunct2, THEN conjunct2, THEN conjunct2, THEN conjunct2, THEN conjunct2,
          THEN conjunct1, THEN spec, THEN mp]) (simp add: codes2)
  have m: "''SAR101'' \<in> set (map code (sarees stock1))"
    by (simp add: sarees_stock1 code_sample_item)
  have one: "([] :: saree list) = [] \<and> (0::nat) = 0 \<and> (1::nat) = 1"
    by (rule t1 [THEN conjunct2, THEN conjunct2, THEN conjunct2, THEN conjunct2, THEN conjunct2,
          THEN conjunct2, THEN conjunct1, THEN spec [where x = "''SAR101''"], THEN mp])
       (use m in \<open>simp add: codes1\<close>)
  have r: "import_row sample_clock sample_iso CHR '','' code_cols 0 (sarees stock1) 7 ''sar101'' ([], 0, 0) =
     ([], 0, Suc 0)"
    by (rule t1 [THEN conjunct2, THEN conjunct2, THEN conjunct2, THEN conjunct2, THEN conjunct2,
          THEN conjunct2, THEN conjunct2, THEN spec, THEN spec, THEN spec, THEN spec, THEN spec,
          THEN spec [where x = "''SAR101''"], THEN mp])
       (use m in \<open>simp add: row_code_sar101\<close>)
  from loop3 codes3 d s codes2 n loop2 codes1 m loop1 row_code_sar101 r show ?thesis by simp
qed

lemma handleFileUpload_batch:
  "handleFileUpload now_ms now_iso text st =
     (case import_batch now_ms now_iso text (sarees st) of
        None \<Rightarrow>
          (if split_on newline text = []
           then showNotification ''Error reading file. Ensure valid CSV.'' ''error'' st
           else showNotification
                  (''Error: CSV must have a '' @ [dquote] @ ''Product_Code'' @ [dquote] @ '' column'')
                  ''error'' st)
      | Some (newSarees, addedCount, duplicateCount) \<Rightarrow>
          if addedCount > 0
          then showNotification
                 (''Imported '' @ String_nat addedCount @ '' items. (''
                    @ String_nat duplicateCount @ '' duplicates skipped)'') ''success''
                 (st\<lparr>sarees := newSarees @ sarees st\<rparr>)
          else showNotification
                 (''No items imported. '' @ String_nat duplicateCount
                    @ '' duplicates found.'') ''error'' st)"
proof (cases "split_on newline text")
  case Nil
  then show ?thesis by (simp add: handleFileUpload_def import_batch_def)
next
  case (Cons header_row data_rows)
  let ?delimiter = "if CHR ''|'' \<in> set text then CHR ''|'' else CHR '',''"
  let ?cols = "find_columns (map (\<lambda>h. trim (strip_quotes (toLowerCase h)))
                 (parseCSVRow ?delimiter header_row))"
  show ?thesis
  proof (cases "codeIdx ?cols")
    case None
    with Cons show ?thesis by (simp add: handleFileUpload_def import_batch_def Let_def)
  next
    case (Some k)
    obtain new a d where
      r: "import_loop now_ms now_iso ?delimiter ?cols k (sarees st) 1 data_rows ([], 0, 0) = (new, a, d)"
      by (cases "import_loop now_ms now_iso ?delimiter ?cols k (sarees st) 1 data_rows ([], 0, 0)")
    have b: "import_batch now_ms now_iso text (sarees st) = Some (new, a, d)"
      using Cons Some r by (simp add: import_batch_def Let_def)
    have "handleFileUpload now_ms now_iso text st =
        (if a > 0
         then showNotification
                (''Imported '' @ String_nat a @ '' items. ('' @ String_nat d @ '' duplicates skipped)'')
                ''success'' (st\<lparr>sarees := new @ sarees st\<rparr>)
         else showNotification
                (''No items imported. '' @ String_nat d @ '' duplicates found.'') ''error'' st)"
      using Cons Some r by (simp add: handleFileUpload_def Let_def)
    then show ?thesis by (simp add: b)
  qed
qed

lemma import_batch_codes:
  assumes "import_batch now_ms now_iso text stock = Some (newSarees, addedCount, duplicateCount)"
  shows "map code newSarees = accepted_codes (map code stock) (text_codes text)"
proof -
  from assms obtain header_row data_rows where sp: "split_on newline text = header_row # data_rows"
    by (auto simp: import_batch_def split: list.splits)
  let ?delimiter = "if CHR ''|'' \<in> set text then CHR ''|'' else CHR '',''"
  let ?cols = "find_columns (map (\<lambda>h. trim (strip_quotes (toLowerCase h))) (parseCSVRow ?delimiter header_row))"
  from assms sp obtain k where k: "codeIdx ?cols = Some k"
    by (auto simp: import_batch_def Let_def split: option.splits)
  from assms sp k have
    "import_loop now_ms now_iso ?delimiter ?cols k stock 1 data_rows ([], 0, 0) = (newSarees, addedCount, duplicateCount)"
    by (simp add: import_batch_def Let_def)
  from import_loop_codes [OF this] have
    "map code newSarees = accepted_codes (map code stock) (batch_codes ?delimiter k data_rows)"
    by auto
  moreover have "text_codes text = batch_codes ?delimiter k data_rows"
    using sp k by (simp add: text_codes_def Let_def)
  ultimately show ?thesis by simp
qed

lemma import_ab:
  "import_batch sample_clock sample_iso csv_ab (sarees stock1) =
     Some ([(imported ''1700000000001'' ''A1'')\<lparr>mrp := Num 100\<rparr>,
            (imported ''1700000000002'' ''B2'')\<lparr>mrp := Num 200\<rparr>], 2, 0)"
  by code_simp

lemma text_codes_ab: "text_codes csv_ab = [''A1'', ''B2'']"
  by code_simp

lemma upload_ab:
  "map code (sarees (handleFileUpload sample_clock sample_iso csv_ab initial_state)) = [''A1'', ''B2'']"
  by code_simp

text \<open>
  C5 as stated fails: the batch is not in reversed row order. Importing the rows
  \<open>a1\<close>, \<open>b2\<close> into an empty collection gives the items \<open>A1\<close>, \<open>B2\<close> in this order.
\<close>

theorem import_order_counterexample:
  "text_codes csv_ab = [''A1'', ''B2''] \<and>
   map code (sarees (handleFileUpload sample_clock sample_iso csv_ab initial_state)) = [''A1'', ''B2''] \<and>
   map code (sarees (handleFileUpload sample_clock sample_iso csv_ab initial_state)) \<noteq>
     rev (text_codes csv_ab)"
  by (simp add: text_codes_ab upload_ab)

text \<open>
  C5, amended. When at least one row is accepted, the accepted rows are put in front of
  the collection as one batch in input row order (the first accepted row first): their
  codes are the codes of the file in row order without those of the stock and without
  repetitions, and the items held before follow the batch in their order.
\<close>

theorem import_prepends_in_row_order:
  assumes "import_batch now_ms now_iso text (sarees st) = Some (newSarees, addedCount, duplicateCount)"
    and "addedCount > 0"
  shows "sarees (handleFileUpload now_ms now_iso text st) = newSarees @ sarees st \<and>
         map code newSarees = accepted_codes (map code (sarees st)) (text_codes text) \<and>
         subseq (map code newSarees) (text_codes text) \<and>
         distinct (map code newSarees)"
proof -
  have "sarees (handleFileUpload now_ms now_iso text st) = newSarees @ sarees st"
    using assms by (simp add: handleFileUpload_batch showNotification_def)
  moreover note m = import_batch_codes [OF assms(1)]
  moreover have "subseq (map code newSarees) (text_codes text)"
    unfolding m by (rule accepted_codes_subseq)
  moreover have "distinct (map code newSarees)"
    unfolding m by (rule accepted_codes_distinct)
  ultimately show ?thesis by blast
qed

theorem import_prepends_in_row_order_witness:
  "import_batch sample_clock sample_iso csv_ab (sarees stock1) =
     Some ([(imported ''1700000000001'' ''A1'')\<lparr>mrp := Num 100\<rparr>,
            (imported ''1700000000002'' ''B2'')\<lparr>mrp := Num 200\<rparr>], 2, 0) \<and>
   (2::nat) > 0 \<and>
   sarees (handleFileUpload sample_clock sample_iso csv_ab stock1) =
     [(imported ''1700000000001'' ''A1'')\<lparr>mrp := Num 100\<rparr>,
      (imported ''1700000000002'' ''B2'')\<lparr>mrp := Num 200\<rparr>] @ sarees stock1 \<and>
   subseq (map code [(imported ''1700000000001'' ''A1'')\<lparr>mrp := Num 100\<rparr>,
                     (imported ''1700000000002'' ''B2'')\<lparr>mrp := Num 200\<rparr>]) (text_codes csv_ab)"
proof -
  have p: "(2::nat) > 0" by simp
  note t = import_prepends_in_row_order [OF import_ab p]
  from import_ab p t [THEN conjunct1] t [THEN conjunct2, THEN conjunct2, THEN conjunct1]
  show ?thesis by (intro conjI)
qed

text \<open>
  C6, at the failing input. For the rows \<open>CODE_A\<close> with an empty status cell and
  \<open>CODE_B\<close> with the status text \<open>Sold - floor 2\<close>, the second item gets the status
  \<open>sold - floor 2\<close>: the lower-cased cell, not the value \<open>sold\<close>. The point of sale
  compares with \<open>sold\<close> and so puts the item in the cart.
\<close>

theorem import_status_kept_verbatim:
  "map status (sarees (handleFileUpload sample_clock sample_iso csv_status initial_state)) =
     [''available'', ''sold - floor 2''] \<and>
   fst (addToCart ''CODE_B'' (handleFileUpload sample_clock sample_iso csv_status initial_state))"
  by code_simp

section \<open>Properties of the export\<close>

lemma dquote_neq [simp]: "dquote \<noteq> CHR '',''" "dquote \<noteq> newline" "CHR '','' \<noteq> newline"
  "CHR '','' \<noteq> dquote" "newline \<noteq> dquote" "newline \<noteq> CHR '',''"
  by (simp_all add: dquote_def newline_def)

lemma double_quotes_Cons:
  "double_quotes (x # xs) = (if x = dquote then [dquote, dquote] else [x]) @ double_quotes xs"
  by (simp add: double_quotes_def)

lemma reparse_quoted:
  assumes "sep_or_end rest"
  shows "reparse True cell row rows (double_quotes v @ dquote # rest) = reparse False (cell @ v) row rows rest"
proof (induction v arbitrary: cell)
  case Nil
  from assms show ?case
    by (cases rest) (auto simp: double_quotes_def sep_or_end_def)
next
  case (Cons x xs)
  show ?case
  proof (cases "x = dquote")
    case True
    then show ?thesis using Cons.IH [of "cell @ [dquote]"] by (simp add: double_quotes_Cons)
  next
    case False
    then show ?thesis using Cons.IH [of "cell @ [x]"] by (simp add: double_quotes_Cons)
  qed
qed

lemma encodes_csv_cell: "encodes (csv_cell v) v"
  unfolding encodes_def
proof (intro allI impI)
  fix row rows rest assume "sep_or_end rest"
  from reparse_quoted [OF this, of "[]" row rows v]
  show "reparse False [] row rows (csv_cell v @ rest) = reparse False v row rows rest"
    by (simp add: csv_cell_def)
qed

lemma reparse_plain:
  "plain k \<Longrightarrow> reparse False cell row rows (k @ rest) = reparse False (cell @ k) row rows rest"
  by (induction k arbitrary: cell) (simp_all add: plain_def)

lemma encodes_plain: "plain k \<Longrightarrow> encodes k k"
  unfolding encodes_def using reparse_plain [of k "[]"] by simp

lemma reparse_line_nl:
  assumes "list_all2 encodes es vs" "vs \<noteq> []"
  shows "reparse False [] row rows (join '','' es @ newline # others) =
         reparse False [] [] (rows @ [row @ vs]) others"
  using assms
proof (induction es vs arbitrary: row rule: list_all2_induct)
  case Nil
  then show ?case by simp
next
  case (Cons e es v vs)
  show ?case
  proof (cases es)
    case Nil
    with Cons.hyps have vs: "vs = []" by simp
    have "sep_or_end (newline # others)" by (simp add: sep_or_end_def)
    with Cons.hyps(1) have
      "reparse False [] row rows (e @ newline # others) = reparse False v row rows (newline # others)"
      unfolding encodes_def by blast
    then show ?thesis using Nil vs by simp
  next
    case (Cons e' es')
    with Cons.hyps have vne: "vs \<noteq> []" by auto
    have "sep_or_end (CHR '','' # join '','' es @ newline # others)" by (simp add: sep_or_end_def)
    with Cons.hyps(1) have
      "reparse False [] row rows (e @ CHR '','' # join '','' es @ newline # others) =
       reparse False v row rows (CHR '','' # join '','' es @ newline # others)"
      unfolding encodes_def by blast
    then show ?thesis using Cons Cons.IH [OF vne, of "row @ [v]"] by simp
  qed
qed

lemma reparse_line_end:
  assumes "list_all2 encodes es vs" "vs \<noteq> []"
  shows "reparse False [] row rows (join '','' es) = rows @ [row @ vs]"
  using assms
proof (induction es vs arbitrary: row rule: list_all2_induct)
  case Nil
  then show ?case by simp
next
  case (Cons e es v vs)
  show ?case
  proof (cases es)
    case Nil
    with Cons.hyps have vs: "vs = []" by simp
    have "sep_or_end []" by (simp add: sep_or_end_def)
    with Cons.hyps(1) have "reparse False [] row rows (e @ []) = reparse False v row rows []"
      unfolding encodes_def by blast
    then show ?thesis using Nil vs by simp
  next
    case (Cons e' es')
    with Cons.hyps have vne: "vs \<noteq> []" by auto
    have "sep_or_end (CHR '','' # join '','' es)" by (simp add: sep_or_end_def)
    with Cons.hyps(1) have
      "reparse False [] row rows (e @ CHR '','' # join '','' es) =
       reparse False v row rows (CHR '','' # join '','' es)"
      unfolding encodes_def by blast
    then show ?thesis using Cons Cons.IH [OF vne, of "row @ [v]"] by simp
  qed
qed

lemma reparse_lines:
  assumes "list_all2 line_of ls vss" "ls \<noteq> []"
  shows "reparse False [] [] rows (join [newline] ls) = rows @ vss"
  using assms
proof (induction ls vss arbitrary: rows rule: list_all2_induct)
  case Nil
  then show ?case by simp
next
  case (Cons l ls vs vss)
  from Cons.hyps(1) obtain es where es: "l = join '','' es" "list_all2 encodes es vs" "vs \<noteq> []"
    unfolding line_of_def by blast
  show ?case
  proof (cases ls)
    case Nil
    with Cons.hyps have "vss = []" by simp
    with Nil es reparse_line_end [OF es(2,3), of "[]" rows] show ?thesis by simp
  next
    case (Cons l' ls')
    then have ne: "ls \<noteq> []" by simp
    have "reparse False [] [] rows (join [newline] (l # ls)) =
          reparse False [] [] rows (join '','' es @ newline # join [newline] ls)"
      using Cons es(1) by simp
    also have "\<dots> = reparse False [] [] (rows @ [[] @ vs]) (join [newline] ls)"
      by (rule reparse_line_nl [OF es(2,3)])
    also have "\<dots> = (rows @ [vs]) @ vss"
      using Cons.IH [OF ne, of "rows @ [vs]"] by simp
    finally show ?thesis by simp
  qed
qed

lemma csv_row_line_of:
  assumes "ob \<noteq> []"
  shows "line_of (csv_row numText ob) (map (\<lambda>p. String_val numText (snd p)) ob)"
  unfolding line_of_def csv_row_def
  by (rule exI [of _ "map (\<lambda>v. csv_cell (String_val numText v)) (map snd ob)"])
     (simp add: assms list_all2_conv_all_nth encodes_csv_cell)

lemma header_line_of:
  assumes "ob \<noteq> []" "\<forall>p \<in> set ob. plain (fst p)"
  shows "line_of (join '','' (map fst ob)) (map fst ob)"
  unfolding line_of_def
  by (rule exI [of _ "map fst ob"]) (simp add: assms list_all2_conv_all_nth encodes_plain)

lemma csvContent_roundtrip:
  assumes "first \<noteq> []" "\<forall>p \<in> set first. plain (fst p)" "\<forall>ob \<in> set data. ob \<noteq> []"
  shows "reparse_table (csvContent numText first data) =
         map fst first # map (\<lambda>ob. map (\<lambda>p. String_val numText (snd p)) ob) data"
proof -
  have "list_all2 line_of (join '','' (map fst first) # map (csv_row numText) data)
          (map fst first # map (\<lambda>ob. map (\<lambda>p. String_val numText (snd p)) ob) data)"
    using assms by (simp add: header_line_of list.rel_map list_all2_same csv_row_line_of)
  from reparse_lines [OF this, of "[]"] show ?thesis
    by (simp add: reparse_table_def csvContent_def)
qed

lemma saree_entries_nonempty: "saree_entries s \<noteq> []"
  by (simp add: saree_entries_def)

lemma sale_entries_nonempty: "sale_entries sl \<noteq> []"
  by (simp add: sale_entries_def)

lemma saree_keys_plain: "\<forall>p \<in> set (saree_entries s). plain (fst p)"
  by (simp add: saree_entries_def plain_def dquote_def newline_def split: option.splits)

lemma sale_keys_plain: "\<forall>p \<in> set (sale_entries sl). plain (fst p)"
  by (simp add: sale_entries_def plain_def dquote_def newline_def)

text \<open>
  What the export does for every non-empty collection of items or of sales: the content
  is the header line of the first record's field names and one line per record, in the
  collection's order, each value between quote characters with its quote characters
  doubled, the lines joined by newlines. Reading the content back gives the first
  record's field names and, row by row, the texts of each record's own values, whatever
  commas, quote characters or newlines they contain.
\<close>

lemma export_roundtrip:
  "(sarees st = s # others \<longrightarrow>
      (\<exists>name content.
         fst (export_inventory numText today st) = Some (name, content) \<and>
         content =
           join [newline]
             (join '','' (map fst (saree_entries s)) #
              map (\<lambda>x. join '','' (map (\<lambda>p. [dquote] @ double_quotes (String_val numText (snd p)) @ [dquote])
                                     (saree_entries x))) (sarees st)) \<and>
         reparse_table content =
           map fst (saree_entries s) #
           map (\<lambda>x. map (\<lambda>p. String_val numText (snd p)) (saree_entries x)) (sarees st))) \<and>
   (sales st = sl # others' \<longrightarrow>
      (\<exists>name content.
         fst (export_sales numText today st) = Some (name, content) \<and>
         content =
           join [newline]
             (join '','' (map fst (sale_entries sl)) #
              map (\<lambda>x. join '','' (map (\<lambda>p. [dquote] @ double_quotes (String_val numText (snd p)) @ [dquote])
                                     (sale_entries x))) (sales st)) \<and>
         reparse_table content =
           map fst (sale_entries sl) #
           map (\<lambda>x. map (\<lambda>p. String_val numText (snd p)) (sale_entries x)) (sales st)))"
proof (intro conjI impI)
  assume a: "sarees st = s # others"
  let ?data = "map saree_entries (sarees st)"
  let ?content = "csvContent numText (saree_entries s) ?data"
  have f: "fst (export_inventory numText today st) =
      Some (''Inventory_Master'' @ ''_'' @ map (\<lambda>c. if c = CHR ''/'' then CHR ''-'' else c) today @ ''.csv'',
            ?content)"
    using a by (simp add: export_inventory_def exportToCSV_def)
  have c: "?content =
           join [newline]
             (join '','' (map fst (saree_entries s)) #
              map (\<lambda>x. join '','' (map (\<lambda>p. [dquote] @ double_quotes (String_val numText (snd p)) @ [dquote])
                                     (saree_entries x))) (sarees st))"
    by (simp add: csvContent_def csv_row_def csv_cell_def comp_def)
  have r: "reparse_table ?content =
           map fst (saree_entries s) #
           map (\<lambda>x. map (\<lambda>p. String_val numText (snd p)) (saree_entries x)) (sarees st)"
    using csvContent_roundtrip [of "saree_entries s" ?data numText]
    by (simp add: saree_entries_nonempty saree_keys_plain comp_def)
  from f c r show "\<exists>name content.
         fst (export_inventory numText today st) = Some (name, content) \<and>
         content =
           join [newline]
             (join '','' (map fst (saree_entries s)) #
              map (\<lambda>x. join '','' (map (\<lambda>p. [dquote] @ double_quotes (String_val numText (snd p)) @ [dquote])
                                     (saree_entries x))) (sarees st)) \<and>
         reparse_table content =
           map fst (saree_entries s) #
           map (\<lambda>x. map (\<lambda>p. String_val numText (snd p)) (saree_entries x)) (sarees st)"
    by blast
next
  assume a: "sales st = sl # others'"
  let ?data = "map sale_entries (sales st)"
  let ?content = "csvContent numText (sale_entries sl) ?data"
  have f: "fst (export_sales numText today st) =
      Some (''Sales_Log'' @ ''_'' @ map (\<lambda>c. if c = CHR ''/'' then CHR ''-'' else c) today @ ''.csv'',
            ?content)"
    using a by (simp add: export_sales_def exportToCSV_def)
  have c: "?content =
           join [newline]
             (join '','' (map fst (sale_entries sl)) #
              map (\<lambda>x. join '','' (map (\<lambda>p. [dquote] @ double_quotes (String_val numText (snd p)) @ [dquote])
                                     (sale_entries x))) (sales st))"
    by (simp add: csvContent_def csv_row_def csv_cell_def comp_def)
  have r: "reparse_table ?content =
           map fst (sale_entries sl) #
           map (\<lambda>x. map (\<lambda>p. String_val numText (snd p)) (sale_entries x)) (sales st)"
    using csvContent_roundtrip [of "sale_entries sl" ?data numText]
    by (simp add: sale_entries_nonempty sale_keys_plain comp_def)
  from f c r show "\<exists>name content.
         fst (export_sales numText today st) = Some (name, content) \<and>
         content =
           join [newline]
             (join '','' (map fst (sale_entries sl)) #
              map (\<lambda>x. join '','' (map (\<lambda>p. [dquote] @ double_quotes (String_val numText (snd p)) @ [dquote])
                                     (sale_entries x))) (sales st)) \<and>
         reparse_table content =
           map fst (sale_entries sl) #
           map (\<lambda>x. map (\<lambda>p. String_val numText (snd p)) (sale_entries x)) (sales st)"
    by blast
qed

text \<open>
  C7, at the failing input. After importing a file with the one row \<open>x9\<close> and then
  adding an item by the form, the inventory holds a record with the field \<open>type\<close> in
  front of one without it. The export writes the header of the first record, ten field
  names, and for the imported record a row of nine cells: read back under the header,
  that record's \<open>type\<close> is the text of its cost price, its \<open>status\<close> is its date, and
  it has no \<open>dateAdded\<close>.
\<close>

theorem export_ragged_table:
  "sarees mixed_stock =
     [\<lparr>id_saree = ''1'', code = ''SAR101'', shopName = quoted_name, shopCode = ''N/A'',
       type = Some ''Cotton'', cp = Num 0, mrp = Num 500, asp60 = Num 0, status = ''available'',
       dateAdded = ''2024-01-03T00:00:00.000Z''\<rparr>,
      \<lparr>id_saree = ''1700000000001'', code = ''X9'', shopName = ''Unknown Shop'', shopCode = ''N/A'',
       type = None, cp = Num 0, mrp = Num 0, asp60 = Num 0, status = ''available'',
       dateAdded = ''2024-01-02T00:00:00.000Z''\<rparr>] \<and>
   inventory_table sample_numText ''1/3/2024'' mixed_stock =
     [[''id'', ''code'', ''shopName'', ''shopCode'', ''type'', ''cp'', ''mrp'', ''asp60'', ''status'',
       ''dateAdded''],
      [''1'', ''SAR101'', quoted_name, ''N/A'', ''Cotton'', ''0'', ''500'', ''0'', ''available'',
       ''2024-01-03T00:00:00.000Z''],
      [''1700000000001'', ''X9'', ''Unknown Shop'', ''N/A'', ''0'', ''0'', ''0'', ''available'',
       ''2024-01-02T00:00:00.000Z'']] \<and>
   zip (inventory_table sample_numText ''1/3/2024'' mixed_stock ! 0)
       (inventory_table sample_numText ''1/3/2024'' mixed_stock ! 2) =
     [(''id'', ''1700000000001''), (''code'', ''X9''), (''shopName'', ''Unknown Shop''),
      (''shopCode'', ''N/A''), (''type'', ''0''), (''cp'', ''0''), (''mrp'', ''0''),
      (''asp60'', ''available''), (''status'', ''2024-01-02T00:00:00.000Z'')]"
  by code_simp

lemma parseCSVRow_empty_cell: "parseCSVRow CHR '','' (csv_cell []) = [[dquote]]"
  by (simp add: parseCSVRow_def csv_cell_def double_quotes_def trim_def is_space_def dquote_def)

section \<open>Properties of the startup\<close>

lemma legacy_text_nonempty: "legacy_inventory_text \<noteq> []"
  by (simp add: legacy_inventory_text_def)

lemma parse_legacy_text: "parse_inventory sample_json legacy_inventory_text = Some three_items"
  by (simp add: sample_json_def)

lemma parse_sales_x: "parse_sales sample_json ''not json'' = None"
  by (simp add: sample_json_def)

lemma save_effect_initial: "save_effect rejects (db, initial_state) = (db, initial_state)"
  by (simp add: save_effect_def initial_state_def)

lemma loadData_try_inventory:
  assumes "\<not> rejects GetInventory" "\<not> rejects GetSales" "\<not> rejects MigrateInventory"
    and "saree_inventory db = None" "ls_saree_inventory ls = Some txt" "txt \<noteq> []"
    and "parse_inventory js txt = Some items"
  shows "saree_inventory (fst (loadData_try rejects js ls db)) = Some items"
proof (cases "saree_sales db = None \<and> truthy_str (ls_saree_sales ls)")
  case True
  show ?thesis
  proof (cases "parse_sales js (ToString (ls_saree_sales ls))")
    case None
    with True assms show ?thesis
      by (simp add: loadData_try_def truthy_str_def ToString_def)
  next
    case (Some v)
    with True assms show ?thesis
      by (cases "rejects MigrateSales") (simp_all add: loadData_try_def truthy_str_def ToString_def)
  qed
next
  case False
  with assms show ?thesis
    by (auto simp: loadData_try_def truthy_str_def ToString_def)
qed

lemma loadData_writes_forward:
  assumes "\<not> rejects GetInventory" "\<not> rejects GetSales" "\<not> rejects MigrateInventory"
    and "saree_inventory db = None" "ls_saree_inventory ls = Some txt" "txt \<noteq> []"
    and "parse_inventory js txt = Some items"
  shows "saree_inventory (fst (loadData rejects js ls (db, st))) = Some items"
proof -
  obtain db' r where t: "loadData_try rejects js ls db = (db', r)"
    by (cases "loadData_try rejects js ls db")
  with loadData_try_inventory [OF assms] have d: "saree_inventory db' = Some items" by simp
  show ?thesis
  proof (cases r)
    case (Inl e)
    with t d show ?thesis by (simp add: loadData_def)
  next
    case (Inr v)
    obtain a b where "v = (a, b)" by (cases v)
    with Inr t d show ?thesis by (simp add: loadData_def)
  qed
qed

lemma loadData_try_completes:
  assumes "\<not> rejects GetInventory" "\<not> rejects GetSales" "\<not> rejects MigrateInventory"
    and "saree_inventory db = None" "ls_saree_inventory ls = Some txt" "txt \<noteq> []"
    and "parse_inventory js txt = Some items"
    and "saree_sales db = None \<and> truthy_str (ls_saree_sales ls) \<longrightarrow>
           parse_sales js (ToString (ls_saree_sales ls)) \<noteq> None \<and> \<not> rejects MigrateSales"
  shows "\<exists>db' savedSales. loadData_try rejects js ls db = (db', Inr (Some items, savedSales))"
proof (cases "saree_sales db = None \<and> truthy_str (ls_saree_sales ls)")
  case True
  with assms(8) obtain v where "parse_sales js (ToString (ls_saree_sales ls)) = Some v"
    and "\<not> rejects MigrateSales" by auto
  with True assms(1-7) show ?thesis
    by (simp add: loadData_try_def truthy_str_def ToString_def)
next
  case False
  with assms(1-7) show ?thesis
    by (auto simp: loadData_try_def truthy_str_def ToString_def)
qed

text \<open>
  The path of the startup without exception: when the two reads and the write of the
  migration succeed and the legacy inventory decodes, \<open>loadData\<close> itself writes the
  decoded inventory into the store, whatever happens to the sales; when moreover the
  sales side raises no exception, the decoded inventory is the collection in memory and
  the store holds it after the save effect, whether or not the save effect's writes
  succeed.
\<close>

lemma legacy_migration_success_path:
  assumes "\<not> rejects GetInventory" "\<not> rejects GetSales" "\<not> rejects MigrateInventory"
    and "saree_inventory db = None" "ls_saree_inventory ls = Some txt" "txt \<noteq> []"
    and "parse_inventory js txt = Some items"
  shows "saree_inventory (fst (loadData rejects js ls (db, initial_state))) = Some items \<and>
         ((saree_sales db = None \<and> truthy_str (ls_saree_sales ls) \<longrightarrow>
             parse_sales js (ToString (ls_saree_sales ls)) \<noteq> None \<and> \<not> rejects MigrateSales) \<longrightarrow>
          sarees (snd (startup rejects js ls db)) = items \<and>
          saree_inventory (fst (startup rejects js ls db)) = Some items)"
proof (intro conjI impI)
  show "saree_inventory (fst (loadData rejects js ls (db, initial_state))) = Some items"
    by (rule loadData_writes_forward [OF assms])
next
  assume s: "saree_sales db = None \<and> truthy_str (ls_saree_sales ls) \<longrightarrow>
             parse_sales js (ToString (ls_saree_sales ls)) \<noteq> None \<and> \<not> rejects MigrateSales"
  from loadData_try_completes [OF assms s] obtain db' savedSales where
    t: "loadData_try rejects js ls db = (db', Inr (Some items, savedSales))" by blast
  from loadData_try_inventory [OF assms] t have d: "saree_inventory db' = Some items" by simp
  let ?st = "initial_state\<lparr>sarees := items,
                sales := (case savedSales of None \<Rightarrow> sales initial_state | Some v \<Rightarrow> v),
                isDBLoaded := True\<rparr>"
  have l: "loadData rejects js ls (db, initial_state) = (db', ?st)"
    using t by (simp add: loadData_def)
  have e: "save_effect rejects (db', ?st) =
      (db'\<lparr>saree_inventory := (if rejects SaveInventory then saree_inventory db' else Some items),
           saree_sales := (if rejects SaveSales then saree_sales db' else Some (sales ?st))\<rparr>, ?st)"
    by (simp add: save_effect_def)
  have u: "startup rejects js ls db = save_effect rejects (db', ?st)"
    unfolding startup_def save_effect_initial l by (rule refl)
  show "sarees (snd (startup rejects js ls db)) = items"
    unfolding u e by simp
  show "saree_inventory (fst (startup rejects js ls db)) = Some items"
    unfolding u e using d by simp
qed

text \<open>
  C9, at the failing input. The store is empty and every store request succeeds; the
  legacy storage holds the serialized three items and a sales value that is not JSON.
  \<open>loadData\<close> writes the three items forward, then decoding the sales throws: the
  items are never put in memory, \<open>isDBLoaded\<close> is set all the same, and the save effect
  writes the empty collection over the migrated inventory.
\<close>

theorem legacy_migration_lost_on_error:
  "saree_inventory empty_db = None \<and>
   ls_saree_inventory legacy_corrupt_sales = Some legacy_inventory_text \<and>
   parse_inventory sample_json legacy_inventory_text = Some three_items \<and>
   length three_items = 3 \<and>
   saree_inventory (fst (loadData no_failure sample_json legacy_corrupt_sales (empty_db, initial_state))) =
     Some three_items \<and>
   sarees (snd (loadData no_failure sample_json legacy_corrupt_sales (empty_db, initial_state))) = [] \<and>
   isDBLoaded (snd (loadData no_failure sample_json legacy_corrupt_sales (empty_db, initial_state))) \<and>
   sarees (snd (startup no_failure sample_json legacy_corrupt_sales empty_db)) = [] \<and>
   saree_inventory (fst (startup no_failure sample_json legacy_corrupt_sales empty_db)) = Some []"
  by (simp add: startup_def save_effect_def loadData_def loadData_try_def initial_state_def
      no_failure_def empty_db_def truthy_str_def ToString_def parse_legacy_text
      parse_sales_x legacy_text_nonempty legacy_corrupt_sales_def)
     (simp add: three_items_def)

end
